theory Spec2Isabelle
  imports Main
begin

section \<open>JSON values\<close>

text \<open>
  A JSON value, as \<^verbatim>\<open>JSON.parse\<close> produces it and \<^verbatim>\<open>JSON.stringify\<close> consumes it.
  A number is kept as the text JavaScript prints for it, so that zero, the only falsy
  number JSON can hold, is \<open>''0''\<close>. The key list of an object holds each key once.
\<close>

datatype json =
    JNull
  | JBool bool
  | JNum string
  | JStr string
  | JArr "json list"
  | JObj "(string \<times> json) list"

text \<open>Truthiness of a JSON value, as \<^verbatim>\<open>||\<close>, \<^verbatim>\<open>!\<close> and \<^verbatim>\<open>? :\<close> test it.\<close>

definition js_truthy :: "json \<Rightarrow> bool" where
  "js_truthy j =
     (case j of
        JNull \<Rightarrow> False
      | JBool b \<Rightarrow> b
      | JNum t \<Rightarrow> t \<noteq> ''0''
      | JStr t \<Rightarrow> t \<noteq> []
      | JArr xs \<Rightarrow> True
      | JObj kvs \<Rightarrow> True)"

fun join_comma :: "string list \<Rightarrow> string" where
  "join_comma [] = []"
| "join_comma [s] = s"
| "join_comma (s # t # ts) = s @ '','' @ join_comma (t # ts)"

text \<open>
  The string JavaScript makes of a JSON value where a string is expected (the \<^verbatim>\<open>Error\<close>
  constructor does so with its message): an array joins its elements with commas, writing
  nothing for \<^verbatim>\<open>null\<close>, and an object is \<^verbatim>\<open>[object Object]\<close>.
\<close>

fun to_text :: "json \<Rightarrow> string" where
  "to_text JNull = ''null''"
| "to_text (JBool b) = (if b then ''true'' else ''false'')"
| "to_text (JNum t) = t"
| "to_text (JStr s) = s"
| "to_text (JArr xs) = join_comma (map (\<lambda>x. if x = JNull then [] else to_text x) xs)"
| "to_text (JObj kvs) = ''[object Object]''"

section \<open>Error taxonomy (api/errors.ts)\<close>

text \<open>
  \<^verbatim>\<open>VenalabsErrorCodes\<close> is a closed object of nine string constants; the type
  \<^verbatim>\<open>VenalabsErrorCode\<close> is the union of its values.
\<close>

datatype VenalabsErrorCode =
    INVALID_API_KEY
  | INVALID_TOKEN
  | TOKEN_EXPIRED
  | NOT_FOUND
  | NETWORK_ERROR
  | RATE_LIMITED
  | TIMEOUT
  | SERVER_ERROR
  | UNKNOWN

text \<open>
  \<^verbatim>\<open>class VenalabsApiError extends Error\<close>: the constructor stores \<^verbatim>\<open>code\<close>,
  \<^verbatim>\<open>status\<close> and the message handed to \<^verbatim>\<open>super\<close>.
\<close>

record VenalabsApiError =
  code :: VenalabsErrorCode
  status :: int
  message :: string

text \<open>
  The optional argument of \<^verbatim>\<open>fromResponse\<close>, declared as
  \<^verbatim>\<open>body?: { code?: number; type?: string; message?: string }\<close>. At run time it is
  whatever \<^verbatim>\<open>response.json()\<close> produced, so a field holds any JSON value; an absent
  field is \<open>None\<close>. A message of the declared type is \<open>Some (JStr m)\<close>.
\<close>

record error_body =
  body_code :: "json option"
  body_type :: "json option"
  body_message :: "json option"

definition isAuthError :: "VenalabsApiError \<Rightarrow> bool" where
  "isAuthError e \<longleftrightarrow>
     code e = INVALID_API_KEY \<or> code e = INVALID_TOKEN \<or> code e = TOKEN_EXPIRED"

definition isRetryable :: "VenalabsApiError \<Rightarrow> bool" where
  "isRetryable e \<longleftrightarrow>
     code e = NETWORK_ERROR \<or> code e = TIMEOUT \<or> code e = SERVER_ERROR \<or> code e = RATE_LIMITED"

text \<open>Decimal rendering of an integer inside a template literal.\<close>

definition digit_char :: "nat \<Rightarrow> char" where
  "digit_char d = char_of (48 + d)"

fun decimal :: "nat \<Rightarrow> string" where
  "decimal n = (if n < 10 then [digit_char n] else decimal (n div 10) @ [digit_char (n mod 10)])"

definition number_text :: "int \<Rightarrow> string" where
  "number_text i = (if i < 0 then CHR ''-'' # decimal (nat (- i)) else decimal (nat i))"

text \<open>
  \<^verbatim>\<open>body?.message || fallback\<close>, as the message of the error: the fallback is taken when
  the body is absent, when it has no message, and when the message is falsy (for a
  string: empty); a truthy message is taken as the string JavaScript makes of it.
\<close>

definition message_or :: "error_body option \<Rightarrow> string \<Rightarrow> string" where
  "message_or body fallback =
     (case body of
        None \<Rightarrow> fallback
      | Some b \<Rightarrow>
          (case body_message b of
             None \<Rightarrow> fallback
           | Some v \<Rightarrow> if js_truthy v then to_text v else fallback))"

text \<open>\<^verbatim>\<open>body?.type === 'TOKEN_EXPIRED'\<close>\<close>

definition type_is_token_expired :: "error_body option \<Rightarrow> bool" where
  "type_is_token_expired body =
     (case body of
        None \<Rightarrow> False
      | Some b \<Rightarrow> body_type b = Some (JStr ''TOKEN_EXPIRED''))"

text \<open>\<^verbatim>\<open>static fromResponse(status, body?)\<close>: the \<^verbatim>\<open>switch\<close> in source order.\<close>

definition fromResponse :: "int \<Rightarrow> error_body option \<Rightarrow> VenalabsApiError" where
  "fromResponse st body =
     (if st = 401 then
        \<lparr> code = (if type_is_token_expired body then TOKEN_EXPIRED else INVALID_TOKEN),
          status = st,
          message = message_or body ''Authentication failed'' \<rparr>
      else if st = 403 then
        \<lparr> code = INVALID_API_KEY, status = st,
          message = message_or body ''Invalid API key'' \<rparr>
      else if st = 404 then
        \<lparr> code = NOT_FOUND, status = st,
          message = message_or body ''Resource not found'' \<rparr>
      else if st = 429 then
        \<lparr> code = RATE_LIMITED, status = st,
          message = message_or body ''Too many requests'' \<rparr>
      else if st \<ge> 500 then
        \<lparr> code = SERVER_ERROR, status = st,
          message = message_or body ''Server error'' \<rparr>
      else
        \<lparr> code = UNKNOWN, status = st,
          message = message_or body (''Request failed with status '' @ number_text st) \<rparr>)"

text \<open>\<^verbatim>\<open>static fromNetworkError(error)\<close>; the argument is \<^verbatim>\<open>error.message\<close>.\<close>

definition fromNetworkError :: "string \<Rightarrow> VenalabsApiError" where
  "fromNetworkError msg =
     \<lparr> code = NETWORK_ERROR, status = 0, message = ''Network error: '' @ msg \<rparr>"

text \<open>\<^verbatim>\<open>static fromTimeout(timeoutMs)\<close>\<close>

definition fromTimeout :: "int \<Rightarrow> VenalabsApiError" where
  "fromTimeout timeoutMs =
     \<lparr> code = TIMEOUT, status = 0,
       message = ''Request timed out after '' @ number_text timeoutMs @ ''ms'' \<rparr>"

text \<open>
  The same call on a timeout that may be \<^verbatim>\<open>undefined\<close> (\<open>None\<close>), which the template
  literal prints as that word.
\<close>

definition timeout_error :: "int option \<Rightarrow> VenalabsApiError" where
  "timeout_error tmo =
     (case tmo of
        Some timeoutMs \<Rightarrow> fromTimeout timeoutMs
      | None \<Rightarrow>
          \<lparr> code = TIMEOUT, status = 0, message = ''Request timed out after undefinedms'' \<rparr>)"

section \<open>Transport primitive (api/fetchWithRetry.ts)\<close>

text \<open>
  What the platform's \<^verbatim>\<open>Response\<close> exposes to this code: \<^verbatim>\<open>status\<close>,
  \<^verbatim>\<open>headers.get('content-length')\<close> and the body that \<^verbatim>\<open>json()\<close> reads. The body
  is empty, is text that is not JSON, or is the text of a JSON value.
\<close>

datatype payload = Empty | Malformed | Json json

record response =
  resp_status :: int
  content_length :: "string option"
  resp_body :: payload

text \<open>\<^verbatim>\<open>response.ok\<close> is the platform's test for a status in the range 200 to 299.\<close>

definition ok :: "response \<Rightarrow> bool" where
  "ok r \<longleftrightarrow> 200 \<le> resp_status r \<and> resp_status r \<le> 299"

datatype http_method = GET | POST

text \<open>
  The arguments of one \<^verbatim>\<open>fetch(url, options)\<close>. The body is kept as the JSON value that
  \<^verbatim>\<open>JSON.stringify\<close> serialises.
\<close>

record request =
  req_url :: string
  req_method :: http_method
  req_headers :: "(string \<times> string) list"
  req_body :: "json option"

text \<open>
  One \<^verbatim>\<open>await fetch(...)\<close> under the timeout controller either yields a response,
  throws an error named \<^verbatim>\<open>AbortError\<close> (the timeout fired), or throws any other error
  (kept as its message).
\<close>

datatype fetch_outcome = Responded response | AbortError | Thrown string

text \<open>What a JavaScript function of this module can throw.\<close>

datatype thrown = ApiError VenalabsApiError | PlainError string

text \<open>
  The outside world of the transport: the outcome of the \<open>k\<close>-th \<^verbatim>\<open>fetch\<close> ever issued,
  which may depend on the request sent.
\<close>

type_synonym network = "nat \<Rightarrow> request \<Rightarrow> fetch_outcome"

text \<open>
  Observation of the effects: how many \<^verbatim>\<open>fetch\<close> calls were issued so far, and the
  delay of every \<^verbatim>\<open>sleep\<close> in milliseconds, oldest first.
\<close>

record wire =
  fetches :: nat
  slept :: "int list"

text \<open>
  A property of an options object: the key is absent, the key is there with the value
  \<^verbatim>\<open>undefined\<close> (which the type \<^verbatim>\<open>retries?: number\<close> admits), or it holds a number.
\<close>

datatype 'a setting = Absent | Undefined | Given 'a

record FetchWithRetryOptions =
  retries :: "int setting"
  retryDelay :: "int setting"
  timeout :: "int setting"

text \<open>\<^verbatim>\<open>DEFAULT_OPTIONS\<close>\<close>

definition DEFAULT_retries :: int where "DEFAULT_retries = 1"
definition DEFAULT_retryDelay :: int where "DEFAULT_retryDelay = 2000"
definition DEFAULT_timeout :: int where "DEFAULT_timeout = 30000"

definition isRetryableStatus :: "int \<Rightarrow> bool" where
  "isRetryableStatus st \<longleftrightarrow> st \<ge> 500 \<or> st = 429"

text \<open>
  One property of \<^verbatim>\<open>{ ...DEFAULT_OPTIONS, ...retryOptions }\<close>: the spread copies every
  key that is there, so only an absent key keeps the default, and a key holding
  \<^verbatim>\<open>undefined\<close> makes the merged value \<^verbatim>\<open>undefined\<close> (\<open>None\<close>).
\<close>

definition merged :: "int \<Rightarrow> int setting \<Rightarrow> int option" where
  "merged dflt s = (case s of Absent \<Rightarrow> Some dflt | Undefined \<Rightarrow> None | Given n \<Rightarrow> Some n)"

text \<open>The destructured triple \<^verbatim>\<open>{ retries, retryDelay, timeout }\<close> of the merged options.\<close>

definition with_defaults :: "FetchWithRetryOptions \<Rightarrow> int option \<times> int option \<times> int option" where
  "with_defaults retryOptions =
     (merged DEFAULT_retries (retries retryOptions),
      merged DEFAULT_retryDelay (retryDelay retryOptions),
      merged DEFAULT_timeout (timeout retryOptions))"

text \<open>
  The time \<^verbatim>\<open>sleep(ms)\<close> waits as \<open>slept\<close> records it: \<^verbatim>\<open>setTimeout\<close> takes an
  \<^verbatim>\<open>undefined\<close> delay as 0.
\<close>

definition sleep_ms :: "int option \<Rightarrow> int" where
  "sleep_ms delay = (case delay of Some ms \<Rightarrow> ms | None \<Rightarrow> 0)"

text \<open>
  The \<^verbatim>\<open>while (attemptsRemaining > 0)\<close> loop of \<^verbatim>\<open>fetchWithRetry\<close>, one unfolding per
  iteration. \<open>lastError\<close> is the variable of the same name.
\<close>

function fetch_loop ::
  "network \<Rightarrow> request \<Rightarrow> int option \<Rightarrow> int option \<Rightarrow> int \<Rightarrow> thrown option \<Rightarrow> 'a wire_scheme
     \<Rightarrow> (thrown + response) \<times> 'a wire_scheme"
where
  "fetch_loop net req delay tmo attemptsRemaining lastError w =
     (if attemptsRemaining > 0 then
        (case net (fetches w) req of
           Responded r \<Rightarrow>
             if ok r \<or> \<not> isRetryableStatus (resp_status r)
             then (Inr r, w\<lparr>fetches := Suc (fetches w)\<rparr>)
             else if attemptsRemaining - 1 > 0
             then fetch_loop net req delay tmo (attemptsRemaining - 1) lastError
                    (w\<lparr>fetches := Suc (fetches w), slept := slept w @ [sleep_ms delay]\<rparr>)
             else (Inr r, w\<lparr>fetches := Suc (fetches w)\<rparr>)
         | AbortError \<Rightarrow>
             if attemptsRemaining - 1 > 0
             then fetch_loop net req delay tmo (attemptsRemaining - 1)
                    (Some (ApiError (timeout_error tmo)))
                    (w\<lparr>fetches := Suc (fetches w), slept := slept w @ [sleep_ms delay]\<rparr>)
             else (Inl (ApiError (timeout_error tmo)), w\<lparr>fetches := Suc (fetches w)\<rparr>)
         | Thrown msg \<Rightarrow>
             if attemptsRemaining - 1 > 0
             then fetch_loop net req delay tmo (attemptsRemaining - 1)
                    (Some (PlainError msg))
                    (w\<lparr>fetches := Suc (fetches w), slept := slept w @ [sleep_ms delay]\<rparr>)
             else (Inl (ApiError (fromNetworkError msg)), w\<lparr>fetches := Suc (fetches w)\<rparr>))
      else
        (Inl (case lastError of Some e \<Rightarrow> e | None \<Rightarrow> PlainError ''Unknown fetch error''), w))"
  by pat_completeness auto
termination
  by (relation "measure (\<lambda>(net, req, delay, tmo, attemptsRemaining, lastError, w). nat attemptsRemaining)")
     auto

text \<open>
  \<^verbatim>\<open>fetchWithRetry(url, options, retryOptions)\<close>: the loop starts with
  \<^verbatim>\<open>retries + 1\<close> attempts and no last error. With \<^verbatim>\<open>retries\<close> undefined that sum is
  \<^verbatim>\<open>NaN\<close>, the test \<^verbatim>\<open>attemptsRemaining > 0\<close> fails at once, and the statement after
  the loop throws \<^verbatim>\<open>new Error('Unknown fetch error')\<close> without any attempt.
\<close>

definition fetchWithRetry ::
  "network \<Rightarrow> request \<Rightarrow> FetchWithRetryOptions \<Rightarrow> 'a wire_scheme
     \<Rightarrow> (thrown + response) \<times> 'a wire_scheme"
where
  "fetchWithRetry net req retryOptions w =
     (case with_defaults retryOptions of
        (retries', retryDelay', timeout') \<Rightarrow>
          (case retries' of
             None \<Rightarrow> (Inl (PlainError ''Unknown fetch error''), w)
           | Some n \<Rightarrow> fetch_loop net req retryDelay' timeout' (n + 1) None w))"

text \<open>
  An outcome that uses up an attempt and asks for another one: a response with a
  retryable status, a timeout, or a thrown error.
\<close>

definition consumes_attempt :: "fetch_outcome \<Rightarrow> bool" where
  "consumes_attempt out =
     (case out of
        Responded r \<Rightarrow> resp_status r \<ge> 500 \<or> resp_status r = 429
      | AbortError \<Rightarrow> True
      | Thrown msg \<Rightarrow> True)"

text \<open>What the caller gets when a given outcome is the last one of a call.\<close>

definition final_result :: "int option \<Rightarrow> fetch_outcome \<Rightarrow> thrown + response" where
  "final_result tmo out =
     (case out of
        Responded r \<Rightarrow> Inr r
      | AbortError \<Rightarrow> Inl (ApiError (timeout_error tmo))
      | Thrown msg \<Rightarrow> Inl (ApiError (fromNetworkError msg)))"

section \<open>API client (api/VenalabsApiClient.ts)\<close>

text \<open>
  The fields of \<^verbatim>\<open>class VenalabsApiClient\<close>, on top of the observation of the wire.
  \<^item> \<open>tokenProvider k\<close> is what the \<open>k\<close>-th invocation of the injected
    \<^verbatim>\<open>getAccessToken\<close> does.
  \<^item> \<open>tokenPromise\<close> is \<open>Some k\<close> while the promise chained on the \<open>k\<close>-th
    invocation is stored in the field, \<open>None\<close> for \<^verbatim>\<open>null\<close>.
  \<^item> \<open>providerCalls\<close>, \<open>inFlight\<close> and \<open>sent\<close> observe the effects: the number of
    provider invocations so far, the invocations whose callbacks have not run yet, and
    every request handed to \<^verbatim>\<open>fetchWithRetry\<close>, oldest first.
\<close>

text \<open>
  One invocation of the provider returns a promise that resolves with a token, returns a
  promise that rejects, or throws before it has returned a promise (a function that is
  not \<^verbatim>\<open>async\<close> can; so does \<^verbatim>\<open>.then\<close> on a returned value that is no promise).
\<close>

datatype provider_outcome = Resolves string | Rejects thrown | Throws thrown

text \<open>What awaiting the invocation gives.\<close>

definition settled_with :: "provider_outcome \<Rightarrow> thrown + string" where
  "settled_with out = (case out of Resolves token \<Rightarrow> Inr token | Rejects e \<Rightarrow> Inl e | Throws e \<Rightarrow> Inl e)"

record VenalabsApiClient = wire +
  apiKey :: string
  baseUrl :: string
  client_timeout :: int
  tokenProvider :: "nat \<Rightarrow> provider_outcome"
  cachedToken :: "string option"
  tokenPromise :: "nat option"
  providerCalls :: nat
  inFlight :: "nat set"
  sent :: "request list"

text \<open>What the platform supplies: \<^verbatim>\<open>fetch\<close> and \<^verbatim>\<open>encodeURIComponent\<close>.\<close>

record platform =
  fetch :: network
  encodeURIComponent :: "string \<Rightarrow> string"

text \<open>\<^verbatim>\<open>VenalabsApiClientConfig\<close>\<close>

record VenalabsApiClientConfig =
  cfg_apiKey :: string
  cfg_getAccessToken :: "(nat \<Rightarrow> provider_outcome) option"
  cfg_baseUrl :: "string option"
  cfg_timeout :: "int option"

definition DEFAULT_BASE_URL :: string where
  "DEFAULT_BASE_URL = ''https://api.venalabs.com''"

definition DEFAULT_TIMEOUT :: int where
  "DEFAULT_TIMEOUT = 30000"

text \<open>\<^verbatim>\<open>.replace(/\/$/, '')\<close>: one trailing slash is removed.\<close>

definition strip_trailing_slash :: "string \<Rightarrow> string" where
  "strip_trailing_slash s = (if s \<noteq> [] \<and> last s = CHR ''/'' then butlast s else s)"

text \<open>
  The constructor. \<^verbatim>\<open>config.baseUrl || DEFAULT_BASE_URL\<close> and
  \<^verbatim>\<open>config.timeout || DEFAULT_TIMEOUT\<close> take the default for an absent value, the empty
  string and zero.
\<close>

definition new_VenalabsApiClient :: "VenalabsApiClientConfig \<Rightarrow> thrown + VenalabsApiClient" where
  "new_VenalabsApiClient config =
     (if cfg_apiKey config = [] then Inl (PlainError ''apiKey is required'')
      else
        (case cfg_getAccessToken config of
           None \<Rightarrow> Inl (PlainError ''getAccessToken is required'')
         | Some provider \<Rightarrow>
             Inr \<lparr> fetches = 0, slept = [],
                   apiKey = cfg_apiKey config,
                   baseUrl = strip_trailing_slash
                     (case cfg_baseUrl config of
                        None \<Rightarrow> DEFAULT_BASE_URL
                      | Some u \<Rightarrow> if u = [] then DEFAULT_BASE_URL else u),
                   client_timeout =
                     (case cfg_timeout config of
                        None \<Rightarrow> DEFAULT_TIMEOUT
                      | Some t \<Rightarrow> if t = 0 then DEFAULT_TIMEOUT else t),
                   tokenProvider = provider,
                   cachedToken = None,
                   tokenPromise = None,
                   providerCalls = 0,
                   inFlight = {},
                   sent = [] \<rparr>))"

subsection \<open>Token management\<close>

text \<open>
  The promise an \<^verbatim>\<open>async\<close> token function hands to its caller: already resolved with
  a token, already rejected with what the function threw, or following the stored promise
  of provider invocation \<open>k\<close>.
\<close>

datatype token_promise = Resolved string | Rejected thrown | Chained nat

text \<open>
  \<^verbatim>\<open>refreshToken()\<close> up to its \<^verbatim>\<open>return\<close>; nothing in it awaits, so it runs in one go.
  With a stored promise it returns that one. Otherwise it invokes the provider; the
  assignment to \<^verbatim>\<open>this.tokenPromise\<close> happens only once the provider has returned its
  promise, so an invocation that throws leaves the field \<^verbatim>\<open>null\<close> and rejects the call.
\<close>

definition refreshToken_call :: "VenalabsApiClient \<Rightarrow> token_promise \<times> VenalabsApiClient" where
  "refreshToken_call c =
     (case tokenPromise c of
        Some p \<Rightarrow> (Chained p, c)
      | None \<Rightarrow>
          (case tokenProvider c (providerCalls c) of
             Throws e \<Rightarrow> (Rejected e, c\<lparr>providerCalls := Suc (providerCalls c)\<rparr>)
           | Resolves token \<Rightarrow>
               (Chained (providerCalls c),
                c\<lparr>tokenPromise := Some (providerCalls c),
                  providerCalls := Suc (providerCalls c),
                  inFlight := insert (providerCalls c) (inFlight c)\<rparr>)
           | Rejects e \<Rightarrow>
               (Chained (providerCalls c),
                c\<lparr>tokenPromise := Some (providerCalls c),
                  providerCalls := Suc (providerCalls c),
                  inFlight := insert (providerCalls c) (inFlight c)\<rparr>)))"

text \<open>
  \<^verbatim>\<open>getToken()\<close> up to its \<^verbatim>\<open>return\<close>. \<^verbatim>\<open>if (this.cachedToken)\<close> is a truthiness
  test: \<^verbatim>\<open>null\<close> and the empty string both fail it.
\<close>

definition getToken_call :: "VenalabsApiClient \<Rightarrow> token_promise \<times> VenalabsApiClient" where
  "getToken_call c =
     (case cachedToken c of
        Some t \<Rightarrow> if t \<noteq> [] then (Resolved t, c) else refreshToken_call c
      | None \<Rightarrow> refreshToken_call c)"

text \<open>
  The \<^verbatim>\<open>.then\<close> and \<^verbatim>\<open>.catch\<close> callbacks chained on provider invocation \<open>p\<close>, run
  when that invocation settles. An invocation that threw has no callbacks.
\<close>

definition settle :: "nat \<Rightarrow> VenalabsApiClient \<Rightarrow> VenalabsApiClient" where
  "settle p c =
     (case tokenProvider c p of
        Resolves token \<Rightarrow>
          c\<lparr>cachedToken := Some token, tokenPromise := None, inFlight := inFlight c - {p}\<rparr>
      | Rejects e \<Rightarrow> c\<lparr>tokenPromise := None, inFlight := inFlight c - {p}\<rparr>
      | Throws e \<Rightarrow> c)"

text \<open>What a caller holding the promise receives once it settles.\<close>

definition promise_result :: "VenalabsApiClient \<Rightarrow> token_promise \<Rightarrow> thrown + string" where
  "promise_result c h =
     (case h of
        Resolved t \<Rightarrow> Inr t
      | Rejected e \<Rightarrow> Inl e
      | Chained p \<Rightarrow> settled_with (tokenProvider c p))"

text \<open>
  \<^verbatim>\<open>await\<close> on such a promise inside one logical call that runs alone: the provider
  invocation settles, its callbacks run, and the caller resumes with the result.
\<close>

definition await_token ::
  "token_promise \<times> VenalabsApiClient \<Rightarrow> (thrown + string) \<times> VenalabsApiClient" where
  "await_token hc =
     (case hc of
        (Resolved t, c) \<Rightarrow> (Inr t, c)
      | (Rejected e, c) \<Rightarrow> (Inl e, c)
      | (Chained p, c) \<Rightarrow> (settled_with (tokenProvider c p), settle p c))"

definition getToken :: "VenalabsApiClient \<Rightarrow> (thrown + string) \<times> VenalabsApiClient" where
  "getToken c = await_token (getToken_call c)"

definition refreshToken :: "VenalabsApiClient \<Rightarrow> (thrown + string) \<times> VenalabsApiClient" where
  "refreshToken c = await_token (refreshToken_call c)"

definition clearToken :: "VenalabsApiClient \<Rightarrow> VenalabsApiClient" where
  "clearToken c = c\<lparr>cachedToken := None\<rparr>"

subsection \<open>Request helpers\<close>

text \<open>The header object built by \<^verbatim>\<open>getHeaders\<close> around a token.\<close>

definition headers_with :: "VenalabsApiClient \<Rightarrow> string \<Rightarrow> (string \<times> string) list" where
  "headers_with c token =
     [(''Content-Type'', ''application/json''),
      (''X-Api-Key'', apiKey c),
      (''Authorization'', ''Bearer '' @ token)]"

definition getHeaders ::
  "VenalabsApiClient \<Rightarrow> (thrown + (string \<times> string) list) \<times> VenalabsApiClient" where
  "getHeaders c =
     (case getToken c of
        (Inl e, c') \<Rightarrow> (Inl e, c')
      | (Inr token, c') \<Rightarrow> (Inr (headers_with c' token), c'))"

definition getRetryOptions :: "VenalabsApiClient \<Rightarrow> FetchWithRetryOptions" where
  "getRetryOptions c =
     \<lparr> retries = Given 1, retryDelay = Given 2000, timeout = Given (client_timeout c) \<rparr>"

text \<open>
  \<^verbatim>\<open>response.json()\<close>: rejects with a \<^verbatim>\<open>SyntaxError\<close> on an empty body and on text that
  is not JSON.
\<close>

definition SyntaxError :: thrown where
  "SyntaxError = PlainError ''SyntaxError''"

definition response_json :: "response \<Rightarrow> thrown + json" where
  "response_json r = (case resp_body r of Json j \<Rightarrow> Inr j | Empty \<Rightarrow> Inl SyntaxError | Malformed \<Rightarrow> Inl SyntaxError)"

text \<open>
  The fields \<^verbatim>\<open>fromResponse\<close> reads from a parsed body. A value that is not an object
  has none of them (\<^verbatim>\<open>body?.message\<close> is \<^verbatim>\<open>undefined\<close> on \<^verbatim>\<open>null\<close>, on a string,
  a number, a boolean and an array alike).
\<close>

definition as_error_body :: "json \<Rightarrow> error_body option" where
  "as_error_body j =
     (case j of
        JObj kvs \<Rightarrow>
          Some \<lparr> body_code = map_of kvs ''code'',
                 body_type = map_of kvs ''type'',
                 body_message = map_of kvs ''message'' \<rparr>
      | _ \<Rightarrow> None)"

text \<open>\<^verbatim>\<open>await response.json().catch(() => ({}))\<close>, as \<^verbatim>\<open>fromResponse\<close> reads it.\<close>

definition error_body_of :: "response \<Rightarrow> error_body option" where
  "error_body_of r =
     (case response_json r of
        Inr j \<Rightarrow> as_error_body j
      | Inl e \<Rightarrow> as_error_body (JObj []))"

text \<open>\<^verbatim>\<open>const url = `${this.baseUrl}/api/v1/sdk${endpoint}`\<close>\<close>

definition api_url :: "VenalabsApiClient \<Rightarrow> string \<Rightarrow> string" where
  "api_url c endpoint = baseUrl c @ ''/api/v1/sdk'' @ endpoint"

text \<open>\<^verbatim>\<open>body ? JSON.stringify(body) : undefined\<close>\<close>

definition body_to_send :: "json option \<Rightarrow> json option" where
  "body_to_send data = (case data of None \<Rightarrow> None | Some j \<Rightarrow> if js_truthy j then Some j else None)"

text \<open>
  The client's call \<^verbatim>\<open>fetchWithRetry(url, options, this.getRetryOptions())\<close>, with the
  request written to the observation \<open>sent\<close>.
\<close>

definition send ::
  "platform \<Rightarrow> request \<Rightarrow> VenalabsApiClient \<Rightarrow> (thrown + response) \<times> VenalabsApiClient" where
  "send pf req c = fetchWithRetry (fetch pf) req (getRetryOptions c) (c\<lparr>sent := sent c @ [req]\<rparr>)"

text \<open>
  \<^verbatim>\<open>private async get<T>(endpoint, isRetry = false)\<close>. The result \<open>Inr (Some j)\<close> is
  a resolved promise with value \<open>j\<close>, \<open>Inr None\<close> one resolved with \<^verbatim>\<open>undefined\<close>,
  \<open>Inl e\<close> a rejection.
\<close>

function get ::
  "platform \<Rightarrow> string \<Rightarrow> bool \<Rightarrow> VenalabsApiClient \<Rightarrow> (thrown + json option) \<times> VenalabsApiClient"
where
  "get pf endpoint isRetry c =
     (case getHeaders c of
        (Inl e, c1) \<Rightarrow> (Inl e, c1)
      | (Inr hdrs, c1) \<Rightarrow>
          (case send pf \<lparr> req_url = api_url c1 endpoint, req_method = GET,
                          req_headers = hdrs, req_body = None \<rparr> c1 of
             (Inl e, c2) \<Rightarrow> (Inl e, c2)
           | (Inr response, c2) \<Rightarrow>
               if resp_status response = 401 \<and> \<not> isRetry then
                 (case refreshToken (clearToken c2) of
                    (Inl e, c3) \<Rightarrow> (Inl e, c3)
                  | (Inr token, c3) \<Rightarrow> get pf endpoint True c3)
               else if \<not> ok response then
                 (Inl (ApiError (fromResponse (resp_status response) (error_body_of response))), c2)
               else
                 (case response_json response of
                    Inl e \<Rightarrow> (Inl e, c2)
                  | Inr j \<Rightarrow> (Inr (Some j), c2))))"
  by pat_completeness auto
termination
  by (relation "measure (\<lambda>(pf, endpoint, isRetry, c). if isRetry then 0 else 1)") auto

text \<open>\<^verbatim>\<open>private async post<T>(endpoint, body?, isRetry = false)\<close>\<close>

function post ::
  "platform \<Rightarrow> string \<Rightarrow> json option \<Rightarrow> bool \<Rightarrow> VenalabsApiClient
     \<Rightarrow> (thrown + json option) \<times> VenalabsApiClient"
where
  "post pf endpoint data isRetry c =
     (case getHeaders c of
        (Inl e, c1) \<Rightarrow> (Inl e, c1)
      | (Inr hdrs, c1) \<Rightarrow>
          (case send pf \<lparr> req_url = api_url c1 endpoint, req_method = POST,
                          req_headers = hdrs, req_body = body_to_send data \<rparr> c1 of
             (Inl e, c2) \<Rightarrow> (Inl e, c2)
           | (Inr response, c2) \<Rightarrow>
               if resp_status response = 401 \<and> \<not> isRetry then
                 (case refreshToken (clearToken c2) of
                    (Inl e, c3) \<Rightarrow> (Inl e, c3)
                  | (Inr token, c3) \<Rightarrow> post pf endpoint data True c3)
               else if \<not> ok response then
                 (Inl (ApiError (fromResponse (resp_status response) (error_body_of response))), c2)
               else if resp_status response = 204 \<or> content_length response = Some ''0'' then
                 (Inr None, c2)
               else
                 (case response_json response of
                    Inl e \<Rightarrow> (Inl e, c2)
                  | Inr j \<Rightarrow> (Inr (Some j), c2))))"
  by pat_completeness auto
termination
  by (relation "measure (\<lambda>(pf, endpoint, data, isRetry, c). if isRetry then 0 else 1)") auto

text \<open>One call of a request helper: \<^verbatim>\<open>get(endpoint)\<close> or \<^verbatim>\<open>post(endpoint, body)\<close>.\<close>

datatype helper = Get string | Post string "json option"

fun helper_call ::
  "platform \<Rightarrow> helper \<Rightarrow> bool \<Rightarrow> VenalabsApiClient \<Rightarrow> (thrown + json option) \<times> VenalabsApiClient"
where
  "helper_call pf (Get endpoint) isRetry c = get pf endpoint isRetry c"
| "helper_call pf (Post endpoint data) isRetry c = post pf endpoint data isRetry c"

text \<open>The request a helper builds around a token.\<close>

fun helper_request :: "VenalabsApiClient \<Rightarrow> helper \<Rightarrow> string \<Rightarrow> request" where
  "helper_request c (Get endpoint) token =
     \<lparr> req_url = api_url c endpoint, req_method = GET,
       req_headers = headers_with c token, req_body = None \<rparr>"
| "helper_request c (Post endpoint data) token =
     \<lparr> req_url = api_url c endpoint, req_method = POST,
       req_headers = headers_with c token, req_body = body_to_send data \<rparr>"

text \<open>
  The tail of a helper, after the test for a 401 that is still to be retried: the error
  for a response that is not ok, otherwise the resolved value.
\<close>

fun conclude :: "helper \<Rightarrow> response \<Rightarrow> thrown + json option" where
  "conclude (Get endpoint) response =
     (if \<not> ok response then
        Inl (ApiError (fromResponse (resp_status response) (error_body_of response)))
      else
        (case response_json response of
           Inl e \<Rightarrow> Inl e
         | Inr j \<Rightarrow> Inr (Some j)))"
| "conclude (Post endpoint data) response =
     (if \<not> ok response then
        Inl (ApiError (fromResponse (resp_status response) (error_body_of response)))
      else if resp_status response = 204 \<or> content_length response = Some ''0'' then Inr None
      else
        (case response_json response of
           Inl e \<Rightarrow> Inl e
         | Inr j \<Rightarrow> Inr (Some j)))"

subsection \<open>Exposed operations\<close>

type_synonym 'a outcome = "(thrown + 'a) \<times> VenalabsApiClient"

definition getMaps :: "platform \<Rightarrow> VenalabsApiClient \<Rightarrow> json option outcome" where
  "getMaps pf c = get pf ''/maps'' False c"

definition getCourse :: "platform \<Rightarrow> string \<Rightarrow> VenalabsApiClient \<Rightarrow> json option outcome" where
  "getCourse pf courseId c =
     (if courseId = [] then (Inl (PlainError ''courseId is required''), c)
      else get pf (''/courses/'' @ encodeURIComponent pf courseId) False c)"

text \<open>\<^verbatim>\<open>startCourse\<close> awaits the helper and returns nothing.\<close>

definition startCourse :: "platform \<Rightarrow> string \<Rightarrow> VenalabsApiClient \<Rightarrow> json option outcome" where
  "startCourse pf courseId c =
     (if courseId = [] then (Inl (PlainError ''courseId is required''), c)
      else
        (case post pf (''/courses/'' @ encodeURIComponent pf courseId @ ''/start'') None False c of
           (Inl e, c') \<Rightarrow> (Inl e, c')
         | (Inr v, c') \<Rightarrow> (Inr None, c')))"

definition completeStep ::
  "platform \<Rightarrow> string \<Rightarrow> string \<Rightarrow> json option \<Rightarrow> VenalabsApiClient \<Rightarrow> json option outcome" where
  "completeStep pf courseId stepId request c =
     (if courseId = [] then (Inl (PlainError ''courseId is required''), c)
      else if stepId = [] then (Inl (PlainError ''stepId is required''), c)
      else post pf (''/courses/'' @ encodeURIComponent pf courseId @ ''/steps/'' @
                    encodeURIComponent pf stepId @ ''/complete'') request False c)"

definition getProgress :: "platform \<Rightarrow> VenalabsApiClient \<Rightarrow> json option outcome" where
  "getProgress pf c = get pf ''/progress'' False c"

text \<open>
  \<^verbatim>\<open>getCourseProgress\<close>: the \<^verbatim>\<open>catch\<close> clause returns \<^verbatim>\<open>null\<close> for a
  \<^verbatim>\<open>VenalabsApiError\<close> whose code is \<^verbatim>\<open>NOT_FOUND\<close> and rethrows everything else.
\<close>

definition getCourseProgress ::
  "platform \<Rightarrow> string \<Rightarrow> VenalabsApiClient \<Rightarrow> json option outcome" where
  "getCourseProgress pf courseId c =
     (if courseId = [] then (Inl (PlainError ''courseId is required''), c)
      else
        (case get pf (''/progress/'' @ encodeURIComponent pf courseId) False c of
           (Inr v, c') \<Rightarrow> (Inr v, c')
         | (Inl (ApiError err), c') \<Rightarrow>
             if code err = NOT_FOUND then (Inr (Some JNull), c') else (Inl (ApiError err), c')
         | (Inl (PlainError msg), c') \<Rightarrow> (Inl (PlainError msg), c')))"

definition getWalletNonce ::
  "platform \<Rightarrow> string \<Rightarrow> VenalabsApiClient \<Rightarrow> json option outcome" where
  "getWalletNonce pf walletAddress c =
     (if walletAddress = [] then (Inl (PlainError ''walletAddress is required''), c)
      else get pf (''/wallet/nonce?walletAddress='' @ encodeURIComponent pf walletAddress) False c)"

definition linkStellarWallet ::
  "platform \<Rightarrow> string \<Rightarrow> string \<Rightarrow> VenalabsApiClient \<Rightarrow> json option outcome" where
  "linkStellarWallet pf walletAddress signature c =
     (if walletAddress = [] then (Inl (PlainError ''walletAddress is required''), c)
      else if signature = [] then (Inl (PlainError ''signature is required''), c)
      else post pf ''/wallet/stellar/link''
             (Some (JObj [(''walletAddress'', JStr walletAddress), (''signature'', JStr signature)]))
             False c)"

definition getLinkedWallets :: "platform \<Rightarrow> VenalabsApiClient \<Rightarrow> json option outcome" where
  "getLinkedWallets pf c = get pf ''/wallet'' False c"

definition verifyStep ::
  "platform \<Rightarrow> string \<Rightarrow> string \<Rightarrow> VenalabsApiClient \<Rightarrow> json option outcome" where
  "verifyStep pf courseId stepId c =
     (if courseId = [] then (Inl (PlainError ''courseId is required''), c)
      else if stepId = [] then (Inl (PlainError ''stepId is required''), c)
      else post pf (''/courses/'' @ encodeURIComponent pf courseId @ ''/steps/'' @
                    encodeURIComponent pf stepId @ ''/verify'') None False c)"

definition getNftVoucher ::
  "platform \<Rightarrow> string \<Rightarrow> string \<Rightarrow> VenalabsApiClient \<Rightarrow> json option outcome" where
  "getNftVoucher pf courseId stepId c =
     (if courseId = [] then (Inl (PlainError ''courseId is required''), c)
      else if stepId = [] then (Inl (PlainError ''stepId is required''), c)
      else get pf (''/courses/'' @ encodeURIComponent pf courseId @ ''/steps/'' @
                   encodeURIComponent pf stepId @ ''/nft-voucher'') False c)"

definition verifyNftMint ::
  "platform \<Rightarrow> string \<Rightarrow> string \<Rightarrow> string \<Rightarrow> VenalabsApiClient \<Rightarrow> json option outcome" where
  "verifyNftMint pf courseId stepId txHash c =
     (if courseId = [] then (Inl (PlainError ''courseId is required''), c)
      else if stepId = [] then (Inl (PlainError ''stepId is required''), c)
      else if txHash = [] then (Inl (PlainError ''txHash is required''), c)
      else
        (case post pf (''/courses/'' @ encodeURIComponent pf courseId @ ''/steps/'' @
                       encodeURIComponent pf stepId @ ''/nft-verify'')
                (Some (JObj [(''txHash'', JStr txHash)])) False c of
           (Inl e, c') \<Rightarrow> (Inl e, c')
         | (Inr v, c') \<Rightarrow> (Inr None, c')))"

text \<open>A call of one of the twelve public methods, with its arguments.\<close>

datatype operation =
    GetMaps
  | GetCourse string
  | StartCourse string
  | CompleteStep string string "json option"
  | GetProgress
  | GetCourseProgress string
  | GetWalletNonce string
  | LinkStellarWallet string string
  | GetLinkedWallets
  | VerifyStep string string
  | GetNftVoucher string string
  | VerifyNftMint string string string

fun perform :: "platform \<Rightarrow> operation \<Rightarrow> VenalabsApiClient \<Rightarrow> json option outcome" where
  "perform pf GetMaps c = getMaps pf c"
| "perform pf (GetCourse courseId) c = getCourse pf courseId c"
| "perform pf (StartCourse courseId) c = startCourse pf courseId c"
| "perform pf (CompleteStep courseId stepId request) c = completeStep pf courseId stepId request c"
| "perform pf GetProgress c = getProgress pf c"
| "perform pf (GetCourseProgress courseId) c = getCourseProgress pf courseId c"
| "perform pf (GetWalletNonce walletAddress) c = getWalletNonce pf walletAddress c"
| "perform pf (LinkStellarWallet walletAddress signature) c = linkStellarWallet pf walletAddress signature c"
| "perform pf GetLinkedWallets c = getLinkedWallets pf c"
| "perform pf (VerifyStep courseId stepId) c = verifyStep pf courseId stepId c"
| "perform pf (GetNftVoucher courseId stepId) c = getNftVoucher pf courseId stepId c"
| "perform pf (VerifyNftMint courseId stepId txHash) c = verifyNftMint pf courseId stepId txHash c"

text \<open>The string arguments a method declares as required, in declaration order.\<close>

fun required_arguments :: "operation \<Rightarrow> string list" where
  "required_arguments GetMaps = []"
| "required_arguments (GetCourse courseId) = [courseId]"
| "required_arguments (StartCourse courseId) = [courseId]"
| "required_arguments (CompleteStep courseId stepId request) = [courseId, stepId]"
| "required_arguments GetProgress = []"
| "required_arguments (GetCourseProgress courseId) = [courseId]"
| "required_arguments (GetWalletNonce walletAddress) = [walletAddress]"
| "required_arguments (LinkStellarWallet walletAddress signature) = [walletAddress, signature]"
| "required_arguments GetLinkedWallets = []"
| "required_arguments (VerifyStep courseId stepId) = [courseId, stepId]"
| "required_arguments (GetNftVoucher courseId stepId) = [courseId, stepId]"
| "required_arguments (VerifyNftMint courseId stepId txHash) = [courseId, stepId, txHash]"

text \<open>
  The one helper call each public method makes once its arguments have passed
  validation: the method, the path and the body.
\<close>

fun helper_of :: "platform \<Rightarrow> operation \<Rightarrow> helper" where
  "helper_of pf GetMaps = Get ''/maps''"
| "helper_of pf (GetCourse courseId) = Get (''/courses/'' @ encodeURIComponent pf courseId)"
| "helper_of pf (StartCourse courseId) =
     Post (''/courses/'' @ encodeURIComponent pf courseId @ ''/start'') None"
| "helper_of pf (CompleteStep courseId stepId request) =
     Post (''/courses/'' @ encodeURIComponent pf courseId @ ''/steps/'' @
           encodeURIComponent pf stepId @ ''/complete'') request"
| "helper_of pf GetProgress = Get ''/progress''"
| "helper_of pf (GetCourseProgress courseId) =
     Get (''/progress/'' @ encodeURIComponent pf courseId)"
| "helper_of pf (GetWalletNonce walletAddress) =
     Get (''/wallet/nonce?walletAddress='' @ encodeURIComponent pf walletAddress)"
| "helper_of pf (LinkStellarWallet walletAddress signature) =
     Post ''/wallet/stellar/link''
       (Some (JObj [(''walletAddress'', JStr walletAddress), (''signature'', JStr signature)]))"
| "helper_of pf GetLinkedWallets = Get ''/wallet''"
| "helper_of pf (VerifyStep courseId stepId) =
     Post (''/courses/'' @ encodeURIComponent pf courseId @ ''/steps/'' @
           encodeURIComponent pf stepId @ ''/verify'') None"
| "helper_of pf (GetNftVoucher courseId stepId) =
     Get (''/courses/'' @ encodeURIComponent pf courseId @ ''/steps/'' @
          encodeURIComponent pf stepId @ ''/nft-voucher'')"
| "helper_of pf (VerifyNftMint courseId stepId txHash) =
     Post (''/courses/'' @ encodeURIComponent pf courseId @ ''/steps/'' @
           encodeURIComponent pf stepId @ ''/nft-verify'') (Some (JObj [(''txHash'', JStr txHash)]))"

text \<open>Whether a thrown value is a \<^verbatim>\<open>VenalabsApiError\<close> with the code NOT_FOUND.\<close>

definition is_not_found :: "thrown \<Rightarrow> bool" where
  "is_not_found e = (case e of ApiError err \<Rightarrow> code err = NOT_FOUND | PlainError msg \<Rightarrow> False)"

text \<open>Whether a call is one of \<^verbatim>\<open>getCourseProgress\<close>.\<close>

definition is_getCourseProgress :: "operation \<Rightarrow> bool" where
  "is_getCourseProgress op = (case op of GetCourseProgress courseId \<Rightarrow> True | _ \<Rightarrow> False)"

subsection \<open>Interleaved callers of the token coordinator\<close>

text \<open>
  JavaScript runs each synchronous stretch of code to completion. Logical calls in
  progress at the same time therefore interleave only at their awaits, and the token
  fields change in these indivisible steps:
  \<^item> a call of \<^verbatim>\<open>getToken()\<close> (from \<^verbatim>\<open>getHeaders\<close>);
  \<^item> the handler of a 401, \<^verbatim>\<open>this.clearToken(); await this.refreshToken()\<close>, up to
    its await;
  \<^item> the callbacks of a provider invocation that settles, which run once and only for an
    invocation in flight.
\<close>

datatype event = CallGetToken | Handle401 | Settle nat

fun step :: "event \<Rightarrow> VenalabsApiClient \<Rightarrow> VenalabsApiClient option" where
  "step CallGetToken c = Some (snd (getToken_call c))"
| "step Handle401 c = Some (snd (refreshToken_call (clearToken c)))"
| "step (Settle p) c = (if p \<in> inFlight c then Some (settle p c) else None)"

fun run_events :: "event list \<Rightarrow> VenalabsApiClient \<Rightarrow> VenalabsApiClient option" where
  "run_events [] c = Some c"
| "run_events (ev # evs) c = (case step ev c of None \<Rightarrow> None | Some c' \<Rightarrow> run_events evs c')"

text \<open>
  \<open>n\<close> calls of \<^verbatim>\<open>getToken()\<close> issued before any provider invocation settles: the
  promises handed out, in call order, and the client afterwards.
\<close>

fun concurrent_getToken ::
  "nat \<Rightarrow> VenalabsApiClient \<Rightarrow> token_promise list \<times> VenalabsApiClient" where
  "concurrent_getToken 0 c = ([], c)"
| "concurrent_getToken (Suc n) c =
     (case getToken_call c of
        (h, c') \<Rightarrow> (case concurrent_getToken n c' of (hs, c'') \<Rightarrow> (h # hs, c'')))"

text \<open>
  The coordinator's invariant: the stored promise is the only invocation in flight, it
  belongs to an invocation that returned a promise, and while it is stored the cache holds
  no usable token.
\<close>

definition single_flight :: "VenalabsApiClient \<Rightarrow> bool" where
  "single_flight c \<longleftrightarrow>
     inFlight c = (case tokenPromise c of None \<Rightarrow> {} | Some p \<Rightarrow> {p}) \<and>
     (tokenPromise c \<noteq> None \<longrightarrow> cachedToken c = None \<or> cachedToken c = Some []) \<and>
     (\<forall>p e. tokenPromise c = Some p \<longrightarrow> tokenProvider c p \<noteq> Throws e)"

section \<open>Fixtures for concrete runs\<close>

text \<open>
  A client as the constructor builds it from an API key, a provider and the default base
  URL and timeout, on a platform whose \<^verbatim>\<open>encodeURIComponent\<close> is only ever applied to
  text that needs no escaping.
\<close>

definition example_client :: "(nat \<Rightarrow> provider_outcome) \<Rightarrow> VenalabsApiClient" where
  "example_client provider =
     \<lparr> fetches = 0, slept = [],
       apiKey = ''valid-key'', baseUrl = ''https://api.venalabs.com'', client_timeout = 30000,
       tokenProvider = provider, cachedToken = None, tokenPromise = None,
       providerCalls = 0, inFlight = {}, sent = [] \<rparr>"

definition example_platform :: "network \<Rightarrow> platform" where
  "example_platform net = \<lparr> fetch = net, encodeURIComponent = (\<lambda>s. s) \<rparr>"

text \<open>A response with a status and a body, and no \<^verbatim>\<open>content-length\<close> header.\<close>

definition reply :: "int \<Rightarrow> payload \<Rightarrow> fetch_outcome" where
  "reply st content = Responded \<lparr> resp_status = st, content_length = None, resp_body = content \<rparr>"

text \<open>
  A server that answers 200 with an empty JSON array to a request carrying the bearer
  token \<open>good\<close>, and 401 with the type TOKEN_EXPIRED to any other request.
\<close>

definition token_gate :: "string \<Rightarrow> network" where
  "token_gate good k req =
     (if map_of (req_headers req) ''Authorization'' = Some (''Bearer '' @ good)
      then reply 200 (Json (JArr []))
      else reply 401 (Json (JObj [(''type'', JStr ''TOKEN_EXPIRED'')])))"

text \<open>A provider that resolves with the tokens of a list in turn, then keeps the last.\<close>

definition tokens_in_turn :: "string list \<Rightarrow> nat \<Rightarrow> provider_outcome" where
  "tokens_in_turn toks k = Resolves (if k < length toks then toks ! k else last toks)"

text \<open>A provider that is not \<^verbatim>\<open>async\<close> and throws the same error on every invocation.\<close>

definition throwing_provider :: "string \<Rightarrow> nat \<Rightarrow> provider_outcome" where
  "throwing_provider msg k = Throws (PlainError msg)"


text \<open>A network that gives the same outcome to every fetch.\<close>

definition always :: "fetch_outcome \<Rightarrow> network" where
  "always out k req = out"

section \<open>Properties of the error taxonomy\<close>

lemma fromResponse_status: "status (fromResponse st b) = st"
  by (simp add: fromResponse_def)

lemma fromResponse_code:
  "code (fromResponse st b) =
     (if st = 401 \<and> type_is_token_expired b then TOKEN_EXPIRED
      else if st = 401 then INVALID_TOKEN
      else if st = 403 then INVALID_API_KEY
      else if st = 404 then NOT_FOUND
      else if st = 429 then RATE_LIMITED
      else if st \<ge> 500 then SERVER_ERROR
      else UNKNOWN)"
  by (simp add: fromResponse_def)

lemma type_is_token_expired_iff:
  "type_is_token_expired b \<longleftrightarrow> (\<exists>eb. b = Some eb \<and> body_type eb = Some (JStr ''TOKEN_EXPIRED''))"
  by (cases b) (simp_all add: type_is_token_expired_def)

lemma message_or_present:
  "body_message eb = Some (JStr m) \<Longrightarrow> m \<noteq> [] \<Longrightarrow> message_or (Some eb) fallback = m"
  by (simp add: message_or_def js_truthy_def)

lemma message_or_absent:
  "b = None \<or> (\<exists>eb. b = Some eb \<and> (body_message eb = None \<or> body_message eb = Some (JStr []))) \<Longrightarrow>
   message_or b fallback = fallback"
  by (auto simp: message_or_def js_truthy_def)

lemma fromResponse_message:
  "message (fromResponse st b) =
     message_or b
       (if st = 401 then ''Authentication failed''
        else if st = 403 then ''Invalid API key''
        else if st = 404 then ''Resource not found''
        else if st = 429 then ''Too many requests''
        else if st \<ge> 500 then ''Server error''
        else ''Request failed with status '' @ number_text st)"
  by (simp add: fromResponse_def)

text \<open>
  A message that is not a string is taken when it is truthy, as the string JavaScript
  makes of it; an empty array is truthy and gives the empty message.
\<close>

lemma fromResponse_message_not_a_string:
  "message (fromResponse 404 (as_error_body (JObj [(''message'', JNum ''42'')]))) = ''42''"
  "message (fromResponse 404 (as_error_body (JObj [(''message'', JArr [])]))) = []"
  "message (fromResponse 404 (as_error_body (JObj [(''message'', JNum ''0'')]))) = ''Resource not found''"
  by (simp_all add: fromResponse_def message_or_def as_error_body_def js_truthy_def)

text \<open>
  Claim C3, as the code has it. For every status and optional body, \<open>fromResponse\<close>
  picks the kind by the table (401 with type TOKEN_EXPIRED, 401 otherwise, 403, 404, 429,
  500 and above, everything else) and keeps the status. It carries the body's message
  when that message is present and not the empty string; when the message is absent or
  the empty string it carries the default text of the status.
\<close>

theorem fromResponse_table:
  "code (fromResponse st b) =
     (if st = 401 \<and> (\<exists>eb. b = Some eb \<and> body_type eb = Some (JStr ''TOKEN_EXPIRED''))
      then TOKEN_EXPIRED
      else if st = 401 then INVALID_TOKEN
      else if st = 403 then INVALID_API_KEY
      else if st = 404 then NOT_FOUND
      else if st = 429 then RATE_LIMITED
      else if st \<ge> 500 then SERVER_ERROR
      else UNKNOWN) \<and>
   status (fromResponse st b) = st \<and>
   (\<forall>eb m. b = Some eb \<and> body_message eb = Some (JStr m) \<and> m \<noteq> [] \<longrightarrow>
      message (fromResponse st b) = m) \<and>
   (b = None \<or> (\<exists>eb. b = Some eb \<and> (body_message eb = None \<or> body_message eb = Some (JStr []))) \<longrightarrow>
      message (fromResponse st b) =
        (if st = 401 then ''Authentication failed''
         else if st = 403 then ''Invalid API key''
         else if st = 404 then ''Resource not found''
         else if st = 429 then ''Too many requests''
         else if st \<ge> 500 then ''Server error''
         else ''Request failed with status '' @ number_text st))"
proof -
  have kind: "code (fromResponse st b) =
     (if st = 401 \<and> (\<exists>eb. b = Some eb \<and> body_type eb = Some (JStr ''TOKEN_EXPIRED''))
      then TOKEN_EXPIRED
      else if st = 401 then INVALID_TOKEN
      else if st = 403 then INVALID_API_KEY
      else if st = 404 then NOT_FOUND
      else if st = 429 then RATE_LIMITED
      else if st \<ge> 500 then SERVER_ERROR
      else UNKNOWN)"
    unfolding fromResponse_code type_is_token_expired_iff ..
  have present: "message (fromResponse st b) = m"
    if "b = Some eb" "body_message eb = Some (JStr m)" "m \<noteq> []" for eb m
    using that by (simp add: fromResponse_message message_or_present)
  have absent: "message (fromResponse st b) =
        (if st = 401 then ''Authentication failed''
         else if st = 403 then ''Invalid API key''
         else if st = 404 then ''Resource not found''
         else if st = 429 then ''Too many requests''
         else if st \<ge> 500 then ''Server error''
         else ''Request failed with status '' @ number_text st)"
    if "b = None \<or> (\<exists>eb. b = Some eb \<and> (body_message eb = None \<or> body_message eb = Some (JStr [])))"
    using message_or_absent [OF that] by (simp add: fromResponse_message)
  from kind fromResponse_status present absent show ?thesis by blast
qed

theorem fromResponse_table_witness:
  "code (fromResponse 401
     (Some \<lparr>body_code = Some (JNum ''401''), body_type = Some (JStr ''TOKEN_EXPIRED''),
            body_message = Some (JStr ''expired'')\<rparr>))
     = TOKEN_EXPIRED \<and>
   status (fromResponse 401
     (Some \<lparr>body_code = Some (JNum ''401''), body_type = Some (JStr ''TOKEN_EXPIRED''),
            body_message = Some (JStr ''expired'')\<rparr>))
     = 401 \<and>
   message (fromResponse 401
     (Some \<lparr>body_code = Some (JNum ''401''), body_type = Some (JStr ''TOKEN_EXPIRED''),
            body_message = Some (JStr ''expired'')\<rparr>))
     = ''expired'' \<and>
   code (fromResponse 503 None) = SERVER_ERROR \<and>
   message (fromResponse 503 None) = ''Server error''"
  using fromResponse_table [of 401
     "Some \<lparr>body_code = Some (JNum ''401''), body_type = Some (JStr ''TOKEN_EXPIRED''),
            body_message = Some (JStr ''expired'')\<rparr>"]
    fromResponse_table [of 503 None]
  by simp

text \<open>
  Claim C3 as stated fails on a body whose message is present and empty: the record then
  carries the default text of the status, not the body's message.
\<close>

theorem fromResponse_empty_message_counterexample:
  "body_message \<lparr>body_code = None, body_type = None, body_message = Some (JStr [])\<rparr>
     = Some (JStr []) \<and>
   message (fromResponse 404
     (Some \<lparr>body_code = None, body_type = None, body_message = Some (JStr [])\<rparr>))
     = ''Resource not found''"
  by (simp add: fromResponse_def message_or_def js_truthy_def)

text \<open>
  Claim C7. \<open>isAuthError\<close> holds exactly for the kinds INVALID_API_KEY, INVALID_TOKEN and
  TOKEN_EXPIRED, \<open>isRetryable\<close> exactly for NETWORK_ERROR, TIMEOUT, SERVER_ERROR and
  RATE_LIMITED; on the remaining kinds of the nine each predicate is false.
\<close>

theorem auth_and_retryable_kinds:
  "(isAuthError e \<longleftrightarrow> code e \<in> {INVALID_API_KEY, INVALID_TOKEN, TOKEN_EXPIRED}) \<and>
   (\<not> isAuthError e \<longleftrightarrow>
      code e \<in> {NOT_FOUND, NETWORK_ERROR, RATE_LIMITED, TIMEOUT, SERVER_ERROR, UNKNOWN}) \<and>
   (isRetryable e \<longleftrightarrow> code e \<in> {NETWORK_ERROR, TIMEOUT, SERVER_ERROR, RATE_LIMITED}) \<and>
   (\<not> isRetryable e \<longleftrightarrow>
      code e \<in> {INVALID_API_KEY, INVALID_TOKEN, TOKEN_EXPIRED, NOT_FOUND, UNKNOWN})"
  by (cases "code e") (simp_all add: isAuthError_def isRetryable_def)

theorem auth_and_retryable_kinds_witness:
  "isAuthError \<lparr>code = TOKEN_EXPIRED, status = 401, message = ''expired''\<rparr> \<and>
   \<not> isRetryable \<lparr>code = TOKEN_EXPIRED, status = 401, message = ''expired''\<rparr> \<and>
   isRetryable \<lparr>code = TIMEOUT, status = 0, message = ''late''\<rparr> \<and>
   \<not> isAuthError \<lparr>code = TIMEOUT, status = 0, message = ''late''\<rparr> \<and>
   \<not> isAuthError \<lparr>code = NOT_FOUND, status = 404, message = ''none''\<rparr> \<and>
   \<not> isRetryable \<lparr>code = UNKNOWN, status = 400, message = ''bad''\<rparr>"
  using auth_and_retryable_kinds [of "\<lparr>code = TOKEN_EXPIRED, status = 401, message = ''expired''\<rparr>"]
    auth_and_retryable_kinds [of "\<lparr>code = TIMEOUT, status = 0, message = ''late''\<rparr>"]
    auth_and_retryable_kinds [of "\<lparr>code = NOT_FOUND, status = 404, message = ''none''\<rparr>"]
    auth_and_retryable_kinds [of "\<lparr>code = UNKNOWN, status = 400, message = ''bad''\<rparr>"]
  by simp

section \<open>Properties of the transport primitive\<close>

declare fetch_loop.simps [simp del]

lemma consumes_attempt_Responded:
  "consumes_attempt (Responded r) \<longleftrightarrow> \<not> (ok r \<or> \<not> isRetryableStatus (resp_status r))"
  by (auto simp: consumes_attempt_def ok_def isRetryableStatus_def)

lemma consumes_attempt_thrown:
  "consumes_attempt AbortError" "consumes_attempt (Thrown msg)"
  by (simp_all add: consumes_attempt_def)

text \<open>The iteration that ends the loop: nothing more to retry, or no attempt left.\<close>

lemma fetch_loop_last:
  "0 < n \<Longrightarrow> \<not> consumes_attempt (net (fetches w) req) \<or> n = 1 \<Longrightarrow>
   fetch_loop net req d t n le w =
     (final_result t (net (fetches w) req), w\<lparr>fetches := Suc (fetches w)\<rparr>)"
  by (subst fetch_loop.simps)
     (auto simp: final_result_def consumes_attempt_Responded consumes_attempt_thrown
           split: fetch_outcome.splits)

text \<open>The iteration that goes round again: it sleeps once and gives up one attempt.\<close>

lemma fetch_loop_again:
  "1 < n \<Longrightarrow> consumes_attempt (net (fetches w) req) \<Longrightarrow>
   \<exists>le'. fetch_loop net req d t n le w =
     fetch_loop net req d t (n - 1) le' (w\<lparr>fetches := Suc (fetches w), slept := slept w @ [sleep_ms d]\<rparr>)"
  by (subst fetch_loop.simps)
     (auto simp: consumes_attempt_Responded consumes_attempt_thrown split: fetch_outcome.splits)

lemma fetch_loop_trace:
  "0 < n \<Longrightarrow> fetch_loop net req d t n le w = (res, w') \<Longrightarrow>
   fetches w < fetches w' \<and> int (fetches w' - fetches w) \<le> n \<and>
   slept w' = slept w @ replicate (fetches w' - fetches w - 1) (sleep_ms d) \<and>
   (\<forall>i. i < fetches w' - fetches w - 1 \<longrightarrow> consumes_attempt (net (fetches w + i) req)) \<and>
   (int (fetches w' - fetches w) < n \<longrightarrow> \<not> consumes_attempt (net (fetches w' - 1) req)) \<and>
   res = final_result t (net (fetches w' - 1) req)"
proof (induction "nat n" arbitrary: n le w)
  case 0
  then show ?case by simp
next
  case (Suc m)
  show ?case
  proof (cases "\<not> consumes_attempt (net (fetches w) req) \<or> n = 1")
    case True
    with Suc.prems fetch_loop_last [of n net w req d t le]
    have "res = final_result t (net (fetches w) req)" and "w' = w\<lparr>fetches := Suc (fetches w)\<rparr>"
      by auto
    with True Suc.prems show ?thesis by auto
  next
    case False
    then have c: "consumes_attempt (net (fetches w) req)" and n: "1 < n"
      using Suc.prems by auto
    let ?w1 = "w\<lparr>fetches := Suc (fetches w), slept := slept w @ [sleep_ms d]\<rparr>"
    from fetch_loop_again [of n net w req d t le, OF n c] Suc.prems obtain le' where
      eq: "fetch_loop net req d t (n - 1) le' ?w1 = (res, w')" by metis
    have m: "m = nat (n - 1)" using Suc.hyps(2) by simp
    have pos: "0 < n - 1" using n by simp
    note IH = Suc.hyps(1) [OF m pos eq]
    from IH have lt: "Suc (fetches w) < fetches w'" by simp
    have k: "fetches w' - fetches w - 1 = Suc (fetches w' - Suc (fetches w) - 1)"
      using lt by simp
    have sl: "slept w' = slept w @ replicate (fetches w' - fetches w - 1) (sleep_ms d)"
      using IH k by (simp add: replicate_append_same)
    have al: "\<forall>i. i < fetches w' - fetches w - 1 \<longrightarrow> consumes_attempt (net (fetches w + i) req)"
    proof (intro allI impI)
      fix i assume i: "i < fetches w' - fetches w - 1"
      show "consumes_attempt (net (fetches w + i) req)"
      proof (cases i)
        case 0
        then show ?thesis using c by simp
      next
        case (Suc j)
        then have "j < fetches w' - fetches ?w1 - 1" using i by simp
        with IH have "consumes_attempt (net (fetches ?w1 + j) req)" by blast
        then show ?thesis using Suc by simp
      qed
    qed
    from IH lt sl al show ?thesis by auto
  qed
qed

lemma fetchWithRetry_trace:
  assumes run: "fetchWithRetry net req opts w = (res, w')"
    and opts: "with_defaults opts = (Some r, d, t)"
    and nonneg: "0 \<le> r"
  shows "fetches w < fetches w' \<and> int (fetches w' - fetches w) \<le> r + 1 \<and>
   slept w' = slept w @ replicate (fetches w' - fetches w - 1) (sleep_ms d) \<and>
   (\<forall>i. i < fetches w' - fetches w - 1 \<longrightarrow> consumes_attempt (net (fetches w + i) req)) \<and>
   (int (fetches w' - fetches w) < r + 1 \<longrightarrow> \<not> consumes_attempt (net (fetches w' - 1) req)) \<and>
   res = final_result t (net (fetches w' - 1) req)"
proof -
  from run opts have "fetch_loop net req d t (r + 1) None w = (res, w')"
    by (simp add: fetchWithRetry_def)
  moreover have "0 < r + 1" using nonneg by simp
  ultimately show ?thesis by (rule fetch_loop_trace [rotated])
qed

text \<open>
  With \<^verbatim>\<open>retries\<close> explicitly \<^verbatim>\<open>undefined\<close> no attempt is made and a plain error is
  thrown.
\<close>

lemma fetchWithRetry_undefined_retries:
  "retries opts = Undefined \<Longrightarrow>
   fetchWithRetry net req opts w = (Inl (PlainError ''Unknown fetch error''), w)"
  by (simp add: fetchWithRetry_def with_defaults_def merged_def)



text \<open>
  Claim C5. When every one of the \<open>retries + 1\<close> attempts consumes an attempt, the call
  makes all of them and the last outcome decides the result: a response (then one with a
  retryable status) is returned, not thrown; a timeout throws the TIMEOUT error and a
  network error throws the NETWORK_ERROR error, both with status 0.
\<close>

theorem fetchWithRetry_exhausted:
  assumes run: "fetchWithRetry net req opts w = (res, w')"
    and opts: "with_defaults opts = (Some r, d, t)"
    and nonneg: "0 \<le> r"
    and exhausted: "\<forall>i. i < nat (r + 1) \<longrightarrow> consumes_attempt (net (fetches w + i) req)"
  shows "fetches w' = fetches w + nat (r + 1) \<and>
   (\<forall>resp. net (fetches w + nat r) req = Responded resp \<longrightarrow>
      res = Inr resp \<and> (resp_status resp \<ge> 500 \<or> resp_status resp = 429)) \<and>
   (net (fetches w + nat r) req = AbortError \<longrightarrow>
      (\<exists>err. res = Inl (ApiError err) \<and> code err = TIMEOUT \<and> status err = 0)) \<and>
   (\<forall>msg. net (fetches w + nat r) req = Thrown msg \<longrightarrow>
      (\<exists>err. res = Inl (ApiError err) \<and> code err = NETWORK_ERROR \<and> status err = 0))"
proof -
  note tr = fetchWithRetry_trace [OF run opts nonneg]
  have all: "fetches w' = fetches w + nat (r + 1)"
  proof (rule ccontr)
    assume ne: "fetches w' \<noteq> fetches w + nat (r + 1)"
    with tr nonneg have less: "int (fetches w' - fetches w) < r + 1" by linarith
    with tr have nc: "\<not> consumes_attempt (net (fetches w' - 1) req)" by blast
    from tr less nonneg have "fetches w' - 1 = fetches w + (fetches w' - fetches w - 1)"
      and "fetches w' - fetches w - 1 < nat (r + 1)" by linarith+
    with exhausted nc show False by metis
  qed
  from all nonneg have last: "fetches w' - 1 = fetches w + nat r"
    by (simp add: nat_add_distrib)
  have lastc: "consumes_attempt (net (fetches w + nat r) req)"
    using exhausted nonneg by (simp add: nat_add_distrib)
  from tr last have res: "res = final_result t (net (fetches w + nat r) req)" by simp
  have terr: "code (timeout_error t) = TIMEOUT" "status (timeout_error t) = 0"
    by (simp_all add: timeout_error_def fromTimeout_def split: option.splits)
  show ?thesis
    using all res lastc terr
    by (auto simp: final_result_def fromNetworkError_def consumes_attempt_def)
qed

theorem fetchWithRetry_exhausted_witness:
  "fetchWithRetry
     (\<lambda>k req. if k = 0 then Thrown ''offline'' else AbortError)
     \<lparr>req_url = ''u'', req_method = GET, req_headers = [], req_body = None\<rparr>
     \<lparr>retries = Absent, retryDelay = Absent, timeout = Given 100\<rparr>
     \<lparr>fetches = 0, slept = []\<rparr>
   = (Inl (ApiError (fromTimeout 100)), \<lparr>fetches = 2, slept = [2000]\<rparr>) \<and>
   with_defaults \<lparr>retries = Absent, retryDelay = Absent, timeout = Given 100\<rparr>
     = (Some 1, Some 2000, Some 100) \<and>
   (0::int) \<le> 1 \<and>
   consumes_attempt (Thrown ''offline'') \<and> consumes_attempt AbortError \<and>
   code (fromTimeout 100) = TIMEOUT \<and> status (fromTimeout 100) = 0"
proof -
  let ?net = "\<lambda>(k::nat) (req::request). if k = 0 then Thrown ''offline'' else AbortError"
  let ?req = "\<lparr>req_url = ''u'', req_method = GET, req_headers = [], req_body = None\<rparr>"
  let ?opts = "\<lparr>retries = Absent, retryDelay = Absent, timeout = Given 100\<rparr>"
  let ?w = "\<lparr>fetches = 0, slept = []\<rparr>"
  have opts: "with_defaults ?opts = (Some 1, Some 2000, Some 100)"
    by (simp add: with_defaults_def merged_def DEFAULT_retries_def DEFAULT_retryDelay_def)
  have run: "fetchWithRetry ?net ?req ?opts ?w
     = (Inl (ApiError (fromTimeout 100)), \<lparr>fetches = 2, slept = [2000]\<rparr>)"
    by (simp add: fetchWithRetry_def opts fetch_loop.simps timeout_error_def sleep_ms_def)
  have nonneg: "(0::int) \<le> 1" by simp
  have exhausted: "\<forall>i. i < nat (1 + 1) \<longrightarrow> consumes_attempt (?net (fetches ?w + i) ?req)"
    by (simp add: consumes_attempt_def)
  from fetchWithRetry_exhausted [OF run opts nonneg exhausted] run opts
  show ?thesis by (simp add: consumes_attempt_def fromTimeout_def)
qed

section \<open>Properties of the token coordinator and the request helpers\<close>

declare get.simps [simp del]
declare post.simps [simp del]

lemma fetch_loop_frame:
  "fetch_loop net req d t n le w = (res, w') \<Longrightarrow> w' = w\<lparr>fetches := fetches w', slept := slept w'\<rparr>"
proof (induction "nat n" arbitrary: n le w)
  case 0
  then have "fetch_loop net req d t n le w =
      (Inl (case le of Some e \<Rightarrow> e | None \<Rightarrow> PlainError ''Unknown fetch error''), w)"
    by (subst fetch_loop.simps) simp
  with "0.prems" show ?case by simp
next
  case (Suc m)
  then have pos: "0 < n" by simp
  show ?case
  proof (cases "\<not> consumes_attempt (net (fetches w) req) \<or> n = 1")
    case True
    with Suc.prems fetch_loop_last [of n net w req d t le] pos
    have "w' = w\<lparr>fetches := Suc (fetches w)\<rparr>" by auto
    then show ?thesis by simp
  next
    case False
    then have c: "consumes_attempt (net (fetches w) req)" and n: "1 < n"
      using pos by auto
    let ?w1 = "w\<lparr>fetches := Suc (fetches w), slept := slept w @ [sleep_ms d]\<rparr>"
    from fetch_loop_again [of n net w req d t le, OF n c] Suc.prems obtain le' where
      eq: "fetch_loop net req d t (n - 1) le' ?w1 = (res, w')" by metis
    have m: "m = nat (n - 1)" using Suc.hyps(2) by simp
    from Suc.hyps(1) [OF m eq] have "w' = ?w1\<lparr>fetches := fetches w', slept := slept w'\<rparr>" .
    then show ?thesis by simp
  qed
qed

lemma with_defaults_getRetryOptions:
  "with_defaults (getRetryOptions c) = (Some 1, Some 2000, Some (client_timeout c))"
  by (simp add: with_defaults_def merged_def getRetryOptions_def)

lemma send_frame:
  assumes "send pf req c = (res, c')"
  shows "c' = c\<lparr>sent := sent c @ [req], fetches := fetches c', slept := slept c'\<rparr>"
proof -
  from assms have "fetch_loop (fetch pf) req (Some 2000) (Some (client_timeout c)) 2 None
      (c\<lparr>sent := sent c @ [req]\<rparr>) = (res, c')"
    by (simp add: send_def fetchWithRetry_def with_defaults_getRetryOptions)
  from fetch_loop_frame [OF this] show ?thesis .
qed

lemma send_at_once:
  assumes "fetch pf (fetches c) req = Responded resp"
    and "resp_status resp < 500" "resp_status resp \<noteq> 429"
  shows "send pf req c = (Inr resp, c\<lparr>fetches := Suc (fetches c), sent := sent c @ [req]\<rparr>)"
proof -
  have "\<not> consumes_attempt (fetch pf (fetches (c\<lparr>sent := sent c @ [req]\<rparr>)) req)"
    using assms by (simp add: consumes_attempt_def)
  then have "fetch_loop (fetch pf) req (Some 2000) (Some (client_timeout c)) 2 None (c\<lparr>sent := sent c @ [req]\<rparr>)
      = (final_result (Some (client_timeout c)) (fetch pf (fetches (c\<lparr>sent := sent c @ [req]\<rparr>)) req),
         c\<lparr>sent := sent c @ [req], fetches := Suc (fetches c)\<rparr>)"
    by (subst fetch_loop_last) simp_all
  then show ?thesis
    using assms(1)
    by (simp add: send_def fetchWithRetry_def with_defaults_getRetryOptions final_result_def)
qed

lemma getToken_cached:
  "cachedToken c = Some tok \<Longrightarrow> tok \<noteq> [] \<Longrightarrow> getToken c = (Inr tok, c)"
  by (simp add: getToken_def getToken_call_def await_token_def)

lemma refreshToken_idle:
  "tokenPromise c = None \<Longrightarrow>
   refreshToken c =
     (settled_with (tokenProvider c (providerCalls c)),
      (case tokenProvider c (providerCalls c) of
         Resolves tok \<Rightarrow> c\<lparr>cachedToken := Some tok, tokenPromise := None,
                            providerCalls := Suc (providerCalls c),
                            inFlight := inFlight c - {providerCalls c}\<rparr>
       | Rejects e \<Rightarrow> c\<lparr>tokenPromise := None, providerCalls := Suc (providerCalls c),
                         inFlight := inFlight c - {providerCalls c}\<rparr>
       | Throws e \<Rightarrow> c\<lparr>providerCalls := Suc (providerCalls c)\<rparr>))"
  by (simp add: refreshToken_def refreshToken_call_def await_token_def settle_def settled_with_def
           split: provider_outcome.splits)

lemma refreshToken_joined:
  "tokenPromise c = Some p \<Longrightarrow>
   refreshToken c = (settled_with (tokenProvider c p), settle p c)"
  by (simp add: refreshToken_def refreshToken_call_def await_token_def)

lemma getToken_uncached:
  "cachedToken c = None \<or> cachedToken c = Some [] \<Longrightarrow> getToken c = refreshToken c"
  by (auto simp: getToken_def getToken_call_def refreshToken_def)

text \<open>What one successful \<open>getToken\<close> does to a single-flight client.\<close>

lemma getToken_from:
  assumes inv: "single_flight c" and tok: "getToken c = (Inr tok, c1)"
  shows "tokenPromise c1 = None \<and> fetches c1 = fetches c \<and> sent c1 = sent c \<and>
         slept c1 = slept c \<and> apiKey c1 = apiKey c \<and> baseUrl c1 = baseUrl c \<and>
         client_timeout c1 = client_timeout c \<and> tokenProvider c1 = tokenProvider c \<and>
         cachedToken c1 = Some tok \<and>
         providerCalls c1 =
           (if tokenPromise c = None \<and> (cachedToken c = None \<or> cachedToken c = Some [])
            then Suc (providerCalls c) else providerCalls c)"
proof (cases "cachedToken c = None \<or> cachedToken c = Some []")
  case True
  with tok have r: "refreshToken c = (Inr tok, c1)" by (simp add: getToken_uncached)
  show ?thesis
  proof (cases "tokenPromise c")
    case None
    with r True show ?thesis
      by (auto simp: refreshToken_idle settled_with_def split: provider_outcome.splits)
  next
    case (Some p)
    with r True show ?thesis
      by (auto simp: refreshToken_joined settled_with_def settle_def
               split: provider_outcome.splits)
  qed
next
  case False
  then obtain t where t: "cachedToken c = Some t" "t \<noteq> []" by auto
  with tok have "c1 = c" "tok = t" by (simp_all add: getToken_cached)
  moreover from inv False have "tokenPromise c = None" by (auto simp: single_flight_def)
  ultimately show ?thesis using t False by simp
qed

lemma helper_request_same:
  "apiKey c1 = apiKey c \<Longrightarrow> baseUrl c1 = baseUrl c \<Longrightarrow>
   helper_request c1 h tok = helper_request c h tok"
  by (cases h) (simp_all add: api_url_def headers_with_def)

text \<open>One unfolding of a helper, once its token is known.\<close>

lemma helper_call_unfold:
  assumes "getToken c = (Inr tok, c1)"
  shows "helper_call pf h isRetry c =
     (case send pf (helper_request c1 h tok) c1 of
        (Inl e, c2) \<Rightarrow> (Inl e, c2)
      | (Inr response, c2) \<Rightarrow>
          if resp_status response = 401 \<and> \<not> isRetry then
            (case refreshToken (clearToken c2) of
               (Inl e, c3) \<Rightarrow> (Inl e, c3)
             | (Inr token, c3) \<Rightarrow> helper_call pf h True c3)
          else (conclude h response, c2))"
proof (cases h)
  case (Get endpoint)
  show ?thesis
    unfolding Get helper_call.simps
    by (subst get.simps)
       (simp add: getHeaders_def assms split: prod.splits sum.splits)
next
  case (Post endpoint data)
  show ?thesis
    unfolding Post helper_call.simps
    by (subst post.simps)
       (simp add: getHeaders_def assms split: prod.splits sum.splits)
qed

lemma helper_call_no_token:
  assumes "getToken c = (Inl e, c1)"
  shows "helper_call pf h isRetry c = (Inl e, c1)"
proof (cases h)
  case (Get endpoint)
  show ?thesis
    unfolding Get helper_call.simps
    by (subst get.simps) (simp add: getHeaders_def assms)
next
  case (Post endpoint data)
  show ?thesis
    unfolding Post helper_call.simps
    by (subst post.simps) (simp add: getHeaders_def assms)
qed



text \<open>Provider invocations and handed-over requests only ever grow.\<close>

lemma refreshToken_grows:
  "refreshToken c = (r, c') \<Longrightarrow> providerCalls c \<le> providerCalls c' \<and> sent c' = sent c"
  by (auto simp: refreshToken_def refreshToken_call_def await_token_def settle_def
           split: option.splits provider_outcome.splits)

lemma getToken_grows:
  "getToken c = (r, c') \<Longrightarrow> providerCalls c \<le> providerCalls c' \<and> sent c' = sent c"
  by (auto simp: getToken_def getToken_call_def refreshToken_call_def await_token_def settle_def
           split: option.splits provider_outcome.splits if_splits)

lemma send_grows:
  assumes "send pf req c = (r, c')"
  shows "providerCalls c' = providerCalls c \<and> sent c' = sent c @ [req]"
  by (subst send_frame [OF assms], simp)+

lemma helper_retry_grows:
  assumes "helper_call pf h True c = (res, c')"
  shows "providerCalls c \<le> providerCalls c' \<and> (\<exists>rest. sent c' = sent c @ rest)"
proof -
  obtain t c1 where tok: "getToken c = (t, c1)" by (cases "getToken c")
  note g = getToken_grows [OF tok]
  show ?thesis
  proof (cases t)
    case (Inl e)
    with tok assms have "c' = c1" by (simp add: helper_call_no_token)
    with g show ?thesis by simp
  next
    case (Inr token)
    obtain r c2 where snd: "send pf (helper_request c1 h token) c1 = (r, c2)"
      by (cases "send pf (helper_request c1 h token) c1")
    from assms tok Inr snd have "c' = c2"
      by (simp add: helper_call_unfold [of c token c1] split: sum.splits)
    with g send_grows [OF snd] show ?thesis by simp
  qed
qed



lemmas token_steps =
  getToken_def getToken_call_def refreshToken_def refreshToken_call_def await_token_def
  settle_def settled_with_def clearToken_def

lemmas request_steps =
  getHeaders_def headers_with_def api_url_def body_to_send_def send_def fetchWithRetry_def
  with_defaults_def merged_def sleep_ms_def getRetryOptions_def fetch_loop.simps ok_def
  isRetryableStatus_def response_json_def error_body_of_def as_error_body_def

lemmas fixture_defs =
  example_client_def example_platform_def reply_def token_gate_def tokens_in_turn_def

lemma example_client_single_flight: "single_flight (example_client provider)"
  by (simp add: single_flight_def example_client_def)



text \<open>
  Claim C10, as the code has it. Take a single-flight client whose cache holds nothing or
  the empty string, and let the provider invocation that \<open>getToken\<close> awaits (the one in
  flight, else a new one) resolve with the empty string. Then \<open>getToken\<close> yields the
  empty string and stores it, and the cache still fails the truthiness test. A new
  invocation is made exactly when no refresh is in flight; a call that starts during a
  refresh joins it. Every helper call from such a state first hands the transport a
  request whose header is \<open>Authorization: Bearer\<close> followed by a space and nothing else.
  Started with no refresh in flight it invokes the provider at least once, and, unless
  the transport returns a 401 response, exactly once, ending with the empty string still
  stored and no refresh in flight, so that the next request invokes the provider again.
\<close>

theorem empty_token_refetched:
  assumes inv: "single_flight c"
    and falsy: "cachedToken c = None \<or> cachedToken c = Some []"
    and empty: "tokenProvider c (case tokenPromise c of Some p \<Rightarrow> p | None \<Rightarrow> providerCalls c)
      = Resolves []"
  shows "fst (getToken c) = Inr [] \<and>
    cachedToken (snd (getToken c)) = Some [] \<and>
    providerCalls (snd (getToken c)) =
      (if tokenPromise c = None then Suc (providerCalls c) else providerCalls c) \<and>
    map_of (req_headers (helper_request c h [])) ''Authorization'' = Some ''Bearer '' \<and>
    (\<forall>res c'. helper_call pf h False c = (res, c') \<longrightarrow>
       (if tokenPromise c = None then Suc (providerCalls c) else providerCalls c)
         \<le> providerCalls c' \<and>
       (\<exists>rest. sent c' = sent c @ helper_request c h [] # rest)) \<and>
    (\<forall>r c2. send pf (helper_request c h []) (snd (getToken c)) = (r, c2) \<and>
       (\<forall>resp. r = Inr resp \<longrightarrow> resp_status resp \<noteq> 401) \<longrightarrow>
       helper_call pf h False c =
         ((case r of Inl e \<Rightarrow> Inl e | Inr resp \<Rightarrow> conclude h resp), c2) \<and>
       sent c2 = sent c @ [helper_request c h []] \<and>
       providerCalls c2 =
         (if tokenPromise c = None then Suc (providerCalls c) else providerCalls c) \<and>
       cachedToken c2 = Some [] \<and> tokenPromise c2 = None)"
proof -
  let ?req = "helper_request c h []"
  let ?n = "if tokenPromise c = None then Suc (providerCalls c) else providerCalls c"
  define c1 where "c1 = snd (getToken c)"
  have fst1: "fst (getToken c) = Inr []"
  proof (cases "tokenPromise c")
    case None
    with falsy empty show ?thesis
      by (simp add: getToken_uncached refreshToken_idle settled_with_def)
  next
    case (Some p)
    with falsy empty show ?thesis
      by (simp add: getToken_uncached refreshToken_joined settled_with_def)
  qed
  then have token: "getToken c = (Inr [], c1)"
    unfolding c1_def by (metis prod.collapse)
  note g = getToken_from [OF inv token]
  from g falsy have p1: "providerCalls c1 = ?n" by auto
  from g have k1: "cachedToken c1 = Some []" "tokenPromise c1 = None" "sent c1 = sent c"
    by simp_all
  have req: "helper_request c1 h [] = ?req"
    using g by (intro helper_request_same) simp_all
  have hdr: "map_of (req_headers ?req) ''Authorization'' = Some ''Bearer ''"
    by (cases h) (simp_all add: headers_with_def)
  obtain r c2 where send1: "send pf ?req c1 = (r, c2)" by (cases "send pf ?req c1")
  note c2 = send_frame [OF send1]
  have s: "sent c2 = sent c @ [?req]"
    by (subst c2) (simp add: k1)
  have p: "providerCalls c2 = ?n"
    by (subst c2) (simp add: p1)
  have k: "cachedToken c2 = Some []" "tokenPromise c2 = None"
    by (subst c2, simp add: k1)+
  note unfolded = helper_call_unfold [OF token, of pf h False, unfolded req send1]
  have general: "?n \<le> providerCalls c' \<and> (\<exists>rest. sent c' = sent c @ ?req # rest)"
    if call: "helper_call pf h False c = (res, c')" for res c'
  proof (cases "\<exists>resp. r = Inr resp \<and> resp_status resp = 401")
    case False
    with call unfolded have "c' = c2" by (auto split: sum.splits)
    with s p show ?thesis by simp
  next
    case True
    then obtain resp where r: "r = Inr resp" "resp_status resp = 401" by auto
    obtain t c3 where refresh: "refreshToken (clearToken c2) = (t, c3)"
      by (cases "refreshToken (clearToken c2)")
    from refreshToken_grows [OF refresh] s p
    have c3: "?n \<le> providerCalls c3" "sent c3 = sent c @ [?req]"
      by (simp_all add: clearToken_def)
    show ?thesis
    proof (cases t)
      case (Inl e)
      with call unfolded r refresh have "c' = c3" by simp
      with c3 show ?thesis by simp
    next
      case (Inr token')
      with call unfolded r refresh have "helper_call pf h True c3 = (res, c')" by simp
      from helper_retry_grows [OF this] c3 show ?thesis by auto
    qed
  qed
  have quiet: "helper_call pf h False c =
        ((case r' of Inl e \<Rightarrow> Inl e | Inr resp \<Rightarrow> conclude h resp), c2') \<and>
      sent c2' = sent c @ [?req] \<and> providerCalls c2' = ?n \<and>
      cachedToken c2' = Some [] \<and> tokenPromise c2' = None"
    if transport: "send pf ?req (snd (getToken c)) = (r', c2')"
      and no401: "\<forall>resp. r' = Inr resp \<longrightarrow> resp_status resp \<noteq> 401" for r' c2'
  proof -
    from transport send1 have same: "r' = r" "c2' = c2" by (simp_all add: c1_def)
    with no401 unfolded have "helper_call pf h False c =
        ((case r of Inl e \<Rightarrow> Inl e | Inr resp \<Rightarrow> conclude h resp), c2)"
      by (auto split: sum.splits)
    with same s p k show ?thesis by simp
  qed
  have "cachedToken (snd (getToken c)) = Some []" "providerCalls (snd (getToken c)) = ?n"
    using k1 p1 by (simp_all add: c1_def)
  with fst1 hdr general quiet show ?thesis by blast
qed

theorem empty_token_refetched_witness:
  "single_flight ((example_client (tokens_in_turn [[]]))\<lparr>cachedToken := Some [], providerCalls := 1\<rparr>) \<and>
   cachedToken ((example_client (tokens_in_turn [[]]))\<lparr>cachedToken := Some [], providerCalls := 1\<rparr>) = Some [] \<and>
   tokenProvider ((example_client (tokens_in_turn [[]]))\<lparr>cachedToken := Some [], providerCalls := 1\<rparr>) 1
     = Resolves [] \<and>
   fst (helper_call (example_platform (always (reply 200 (Json (JArr []))))) (Get ''/maps'') False
      ((example_client (tokens_in_turn [[]]))\<lparr>cachedToken := Some [], providerCalls := 1\<rparr>))
     = Inr (Some (JArr [])) \<and>
   providerCalls (snd (helper_call (example_platform (always (reply 200 (Json (JArr []))))) (Get ''/maps'') False
      ((example_client (tokens_in_turn [[]]))\<lparr>cachedToken := Some [], providerCalls := 1\<rparr>))) = 2 \<and>
   cachedToken (snd (helper_call (example_platform (always (reply 200 (Json (JArr []))))) (Get ''/maps'') False
      ((example_client (tokens_in_turn [[]]))\<lparr>cachedToken := Some [], providerCalls := 1\<rparr>))) = Some [] \<and>
   map req_headers (sent (snd (helper_call (example_platform (always (reply 200 (Json (JArr []))))) (Get ''/maps'') False
      ((example_client (tokens_in_turn [[]]))\<lparr>cachedToken := Some [], providerCalls := 1\<rparr>))))
     = [[(''Content-Type'', ''application/json''), (''X-Api-Key'', ''valid-key''),
         (''Authorization'', ''Bearer '')]]"
proof -
  let ?c = "(example_client (tokens_in_turn [[]]))\<lparr>cachedToken := Some [], providerCalls := 1\<rparr>"
  let ?pf = "example_platform (always (reply 200 (Json (JArr []))))"
  let ?h = "Get ''/maps''"
  let ?resp = "\<lparr> resp_status = 200, content_length = None, resp_body = Json (JArr []) \<rparr>"
  let ?c2 = "snd (send ?pf (helper_request ?c ?h []) (snd (getToken ?c)))"
  have inv: "single_flight ?c" by (simp add: single_flight_def example_client_def)
  have idle: "tokenPromise ?c = None" and cache: "cachedToken ?c = Some []"
    and calls: "providerCalls ?c = 1"
    by (simp_all add: example_client_def)
  have falsy: "cachedToken ?c = None \<or> cachedToken ?c = Some []" using cache by simp
  have empty: "tokenProvider ?c (case tokenPromise ?c of Some p \<Rightarrow> p | None \<Rightarrow> providerCalls ?c)
      = Resolves []"
    by (simp add: fixture_defs)
  have empty1: "tokenProvider ?c 1 = Resolves []"
    by (simp add: fixture_defs)
  have transport: "send ?pf (helper_request ?c ?h []) (snd (getToken ?c)) = (Inr ?resp, ?c2)"
    by (simp add: token_steps request_steps fixture_defs always_def)
  have no401: "\<forall>resp. (Inr ?resp :: thrown + response) = Inr resp \<longrightarrow> resp_status resp \<noteq> 401"
    by auto
  note quiet = empty_token_refetched [OF inv falsy empty, of ?h ?pf, THEN conjunct2,
      THEN conjunct2, THEN conjunct2, THEN conjunct2, THEN conjunct2, THEN spec, THEN spec,
      THEN mp, OF conjI [OF transport no401]]
  from quiet idle have run: "helper_call ?pf ?h False ?c = (conclude ?h ?resp, ?c2) \<and>
      sent ?c2 = sent ?c @ [helper_request ?c ?h []] \<and>
      providerCalls ?c2 = Suc (providerCalls ?c) \<and> cachedToken ?c2 = Some []"
    by simp
  from run have res: "fst (helper_call ?pf ?h False ?c) = Inr (Some (JArr []))"
    by (simp add: ok_def response_json_def)
  from run have p: "providerCalls (snd (helper_call ?pf ?h False ?c)) = 2"
    by (simp add: calls)
  from run have k: "cachedToken (snd (helper_call ?pf ?h False ?c)) = Some []"
    by simp
  from run have s: "map req_headers (sent (snd (helper_call ?pf ?h False ?c)))
      = [[(''Content-Type'', ''application/json''), (''X-Api-Key'', ''valid-key''),
          (''Authorization'', ''Bearer '')]]"
    by (simp add: example_client_def headers_with_def)
  from inv cache empty1 res p k s show ?thesis by simp
qed

text \<open>
  Claim C10 as stated fails in two places, both with the empty string stored and a
  provider that keeps resolving with it.
  \<^item> A request that starts while the refresh of another request is in flight joins that
    refresh: its \<open>getToken\<close> returns the stored promise and the provider is not invoked
    for it.
  \<^item> A request answered with a 401 invokes the provider three times, not once: for its
    first token, for the refresh, and again in the retry, where the refreshed empty
    string fails the truthiness test.
\<close>

theorem empty_token_refetched_counterexample:
  "cachedToken (snd (getToken_call
      ((example_client (tokens_in_turn [[]]))\<lparr>cachedToken := Some [], providerCalls := 1\<rparr>))) = Some [] \<and>
   tokenPromise (snd (getToken_call
      ((example_client (tokens_in_turn [[]]))\<lparr>cachedToken := Some [], providerCalls := 1\<rparr>))) = Some 1 \<and>
   providerCalls (snd (getToken_call
      ((example_client (tokens_in_turn [[]]))\<lparr>cachedToken := Some [], providerCalls := 1\<rparr>))) = 2 \<and>
   fst (helper_call (example_platform (always (reply 200 (Json (JArr []))))) (Get ''/maps'') False
      (snd (getToken_call
        ((example_client (tokens_in_turn [[]]))\<lparr>cachedToken := Some [], providerCalls := 1\<rparr>))))
     = Inr (Some (JArr [])) \<and>
   providerCalls (snd (helper_call (example_platform (always (reply 200 (Json (JArr []))))) (Get ''/maps'') False
      (snd (getToken_call
        ((example_client (tokens_in_turn [[]]))\<lparr>cachedToken := Some [], providerCalls := 1\<rparr>))))) = 2 \<and>
   providerCalls (snd (helper_call (example_platform (always (reply 401 Empty))) (Get ''/maps'') False
      ((example_client (tokens_in_turn [[]]))\<lparr>cachedToken := Some [], providerCalls := 1\<rparr>))) = 4"
  by (simp add: get.simps token_steps request_steps fixture_defs always_def)

text \<open>
  Claim C8, as the code has it. In the POST helper, a response that is ok and has status
  204 or a \<^verbatim>\<open>content-length\<close> header equal to \<open>0\<close> resolves to \<^verbatim>\<open>undefined\<close>, whatever
  its body holds: the body is not parsed.
\<close>

theorem post_empty_success:
  assumes token: "getToken c = (Inr tok, c1)"
    and transport: "send pf (helper_request c1 (Post endpoint data) tok) c1 = (Inr resp, c2)"
    and success: "ok resp"
    and no_content: "resp_status resp = 204 \<or> content_length resp = Some ''0''"
  shows "post pf endpoint data isRetry c = (Inr None, c2) \<and>
    conclude (Post endpoint data) (resp\<lparr>resp_body := Malformed\<rparr>) = Inr None"
proof -
  from success have "resp_status resp \<noteq> 401" by (auto simp: ok_def)
  with success no_content transport
  have "helper_call pf (Post endpoint data) isRetry c = (Inr None, c2)"
    by (simp add: helper_call_unfold [OF token])
  moreover from success no_content
  have "conclude (Post endpoint data) (resp\<lparr>resp_body := Malformed\<rparr>) = Inr None"
    by (simp add: ok_def)
  ultimately show ?thesis by simp
qed

theorem post_empty_success_witness:
  "fst (getToken (example_client (tokens_in_turn [''valid-token'']))) = Inr ''valid-token'' \<and>
   ok \<lparr> resp_status = 204, content_length = None, resp_body = Empty \<rparr> \<and>
   fst (post (example_platform (always (reply 204 Empty))) ''/courses/course-1/start'' None False
      (example_client (tokens_in_turn [''valid-token'']))) = Inr None"
proof -
  let ?c = "example_client (tokens_in_turn [''valid-token''])"
  let ?pf = "example_platform (always (reply 204 Empty))"
  let ?resp = "\<lparr> resp_status = 204, content_length = None, resp_body = Empty \<rparr>"
  let ?req = "helper_request (snd (getToken ?c)) (Post ''/courses/course-1/start'' None) ''valid-token''"
  have tok: "fst (getToken ?c) = Inr ''valid-token''"
    by (simp add: token_steps fixture_defs)
  then have token: "getToken ?c = (Inr ''valid-token'', snd (getToken ?c))"
    by (metis prod.collapse)
  have transport: "send ?pf ?req (snd (getToken ?c)) = (Inr ?resp, snd (send ?pf ?req (snd (getToken ?c))))"
    by (simp add: token_steps request_steps fixture_defs always_def)
  have success: "ok ?resp" by (simp add: ok_def)
  have no_content: "resp_status ?resp = 204 \<or> content_length ?resp = Some ''0''" by simp
  from post_empty_success [OF token transport success no_content, of False] tok success
  show ?thesis by simp
qed

text \<open>
  Claim C8 as stated fails in two places. The GET helper has no branch for an empty
  success: on a 204 with an empty body and a \<^verbatim>\<open>content-length\<close> of \<open>0\<close> it calls
  \<^verbatim>\<open>response.json()\<close>, which rejects. The POST helper recognises an empty body by the
  header only: on a 200 with an empty body and no \<^verbatim>\<open>content-length\<close> header it parses
  too.
\<close>

theorem empty_success_counterexample:
  "fst (get (example_platform
          (always (Responded \<lparr> resp_status = 204, content_length = Some ''0'', resp_body = Empty \<rparr>)))
        ''/maps'' False (example_client (tokens_in_turn [''valid-token''])))
     = Inl SyntaxError \<and>
   fst (post (example_platform (always (reply 200 Empty)))
        ''/courses/course-1/start'' None False (example_client (tokens_in_turn [''valid-token''])))
     = Inl SyntaxError"
  by (simp add: get.simps post.simps token_steps request_steps fixture_defs always_def)

section \<open>Properties of the exposed operations\<close>

lemmas operation_defs =
  getMaps_def getCourse_def startCourse_def completeStep_def getProgress_def
  getCourseProgress_def getWalletNonce_def linkStellarWallet_def getLinkedWallets_def
  verifyStep_def getNftVoucher_def verifyNftMint_def

text \<open>
  Claim C6. Take any public method whose required arguments are all non-empty, and
  suppose the helper call it makes rejects with \<open>e\<close>. Then \<open>getCourseProgress\<close> resolves
  with \<^verbatim>\<open>null\<close> when \<open>e\<close> is a \<open>VenalabsApiError\<close> of kind NOT_FOUND and rejects with
  \<open>e\<close> otherwise, and every other method rejects with \<open>e\<close>, NOT_FOUND included.
\<close>

theorem only_getCourseProgress_swallows_not_found:
  assumes valid: "[] \<notin> set (required_arguments op)"
    and failed: "helper_call pf (helper_of pf op) False c = (Inl e, c')"
  shows "perform pf op c =
     (if is_getCourseProgress op \<and> is_not_found e then (Inr (Some JNull), c') else (Inl e, c'))"
  using valid failed
  by (cases op)
     (auto simp: operation_defs is_getCourseProgress_def is_not_found_def split: thrown.splits)

theorem only_getCourseProgress_swallows_not_found_witness:
  "fst (perform (example_platform (always (reply 404 Empty))) (GetCourseProgress ''course-1'')
      (example_client (tokens_in_turn [''valid-token'']))) = Inr (Some JNull) \<and>
   fst (perform (example_platform (always (reply 404 Empty))) (GetCourse ''course-1'')
      (example_client (tokens_in_turn [''valid-token''])))
     = Inl (ApiError \<lparr>code = NOT_FOUND, status = 404, message = ''Resource not found''\<rparr>) \<and>
   fst (perform (example_platform (always (reply 403 Empty))) (GetCourseProgress ''course-1'')
      (example_client (tokens_in_turn [''valid-token''])))
     = Inl (ApiError \<lparr>code = INVALID_API_KEY, status = 403, message = ''Invalid API key''\<rparr>)"
proof -
  let ?c = "example_client (tokens_in_turn [''valid-token''])"
  let ?nf = "ApiError \<lparr>code = NOT_FOUND, status = 404, message = ''Resource not found''\<rparr>"
  let ?key = "ApiError \<lparr>code = INVALID_API_KEY, status = 403, message = ''Invalid API key''\<rparr>"
  let ?pf404 = "example_platform (always (reply 404 Empty))"
  let ?pf403 = "example_platform (always (reply 403 Empty))"
  have progress404: "helper_call ?pf404 (helper_of ?pf404 (GetCourseProgress ''course-1'')) False ?c
      = (Inl ?nf, snd (helper_call ?pf404 (helper_of ?pf404 (GetCourseProgress ''course-1'')) False ?c))"
    by (simp add: get.simps token_steps request_steps fixture_defs always_def
          fromResponse_def message_or_def)
  have course404: "helper_call ?pf404 (helper_of ?pf404 (GetCourse ''course-1'')) False ?c
      = (Inl ?nf, snd (helper_call ?pf404 (helper_of ?pf404 (GetCourse ''course-1'')) False ?c))"
    by (simp add: get.simps token_steps request_steps fixture_defs always_def
          fromResponse_def message_or_def)
  have progress403: "helper_call ?pf403 (helper_of ?pf403 (GetCourseProgress ''course-1'')) False ?c
      = (Inl ?key, snd (helper_call ?pf403 (helper_of ?pf403 (GetCourseProgress ''course-1'')) False ?c))"
    by (simp add: get.simps token_steps request_steps fixture_defs always_def
          fromResponse_def message_or_def)
  have v1: "[] \<notin> set (required_arguments (GetCourseProgress ''course-1''))" by simp
  have v2: "[] \<notin> set (required_arguments (GetCourse ''course-1''))" by simp
  from only_getCourseProgress_swallows_not_found [OF v1 progress404]
  have a: "fst (perform ?pf404 (GetCourseProgress ''course-1'') ?c) = Inr (Some JNull)"
    by (simp add: is_getCourseProgress_def is_not_found_def)
  from only_getCourseProgress_swallows_not_found [OF v2 course404]
  have b: "fst (perform ?pf404 (GetCourse ''course-1'') ?c) = Inl ?nf"
    by (simp add: is_getCourseProgress_def is_not_found_def)
  from only_getCourseProgress_swallows_not_found [OF v1 progress403]
  have d: "fst (perform ?pf403 (GetCourseProgress ''course-1'') ?c) = Inl ?key"
    by (simp add: is_getCourseProgress_def is_not_found_def)
  from a b d show ?thesis by simp
qed

text \<open>
  Claim C9. A public method called with the empty string for one of its required
  arguments rejects with a plain validation error and leaves the client and the
  observations as they were: no provider invocation, no request handed to the transport,
  no fetch, no refresh.
\<close>

theorem validation_before_network:
  assumes "[] \<in> set (required_arguments op)"
  shows "\<exists>msg. perform pf op c = (Inl (PlainError msg), c)"
  using assms by (cases op) (auto simp: operation_defs)

theorem validation_before_network_witness:
  "perform (example_platform (always (reply 200 (Json JNull)))) (VerifyNftMint ''course-1'' ''step-1'' [])
      (example_client (tokens_in_turn [''valid-token'']))
     = (Inl (PlainError ''txHash is required''), example_client (tokens_in_turn [''valid-token''])) \<and>
   providerCalls (snd (perform (example_platform (always (reply 200 (Json JNull))))
      (CompleteStep ''course-1'' [] None) (example_client (tokens_in_turn [''valid-token''])))) = 0 \<and>
   sent (snd (perform (example_platform (always (reply 200 (Json JNull))))
      (CompleteStep ''course-1'' [] None) (example_client (tokens_in_turn [''valid-token''])))) = []"
proof -
  let ?c = "example_client (tokens_in_turn [''valid-token''])"
  let ?pf = "example_platform (always (reply 200 (Json JNull)))"
  have m: "[] \<in> set (required_arguments (VerifyNftMint ''course-1'' ''step-1'' []))" by simp
  have s: "[] \<in> set (required_arguments (CompleteStep ''course-1'' [] None))" by simp
  from validation_before_network [OF m, of ?pf ?c]
  have a: "perform ?pf (VerifyNftMint ''course-1'' ''step-1'' []) ?c
      = (Inl (PlainError ''txHash is required''), ?c)"
    by (auto simp: verifyNftMint_def)
  from validation_before_network [OF s, of ?pf ?c]
  have b: "snd (perform ?pf (CompleteStep ''course-1'' [] None) ?c) = ?c"
    by auto
  have "providerCalls ?c = 0" "sent ?c = []" by (simp_all add: example_client_def)
  with a b show ?thesis by simp
qed

section \<open>Properties of interleaved token requests\<close>

lemma refreshToken_call_joined:
  "tokenPromise c = Some p \<Longrightarrow> refreshToken_call c = (Chained p, c)"
  by (simp add: refreshToken_call_def)

lemma getToken_call_uncached:
  "cachedToken c = None \<or> cachedToken c = Some [] \<Longrightarrow> getToken_call c = refreshToken_call c"
  by (auto simp: getToken_call_def)

lemma concurrent_getToken_joined:
  "tokenPromise c = Some p \<Longrightarrow> cachedToken c = None \<or> cachedToken c = Some [] \<Longrightarrow>
   concurrent_getToken n c = (replicate n (Chained p), c)"
  by (induction n) (simp_all add: getToken_call_uncached refreshToken_call_joined)

lemma single_flight_step:
  assumes inv: "single_flight c" and st: "step ev c = Some c'"
  shows "single_flight c'"
proof (cases ev)
  case CallGetToken
  with inv st show ?thesis
    by (auto simp: single_flight_def getToken_call_def refreshToken_call_def
             split: option.splits if_splits provider_outcome.splits)
next
  case Handle401
  with inv st show ?thesis
    by (auto simp: single_flight_def clearToken_def refreshToken_call_def
             split: option.splits provider_outcome.splits)
next
  case (Settle p)
  with inv st show ?thesis
    by (auto simp: single_flight_def settle_def
             split: option.splits provider_outcome.splits if_splits)
qed

lemma single_flight_run:
  "single_flight c \<Longrightarrow> run_events evs c = Some c' \<Longrightarrow> single_flight c'"
proof (induction evs arbitrary: c)
  case Nil
  then show ?case by simp
next
  case (Cons ev evs)
  then show ?case
    by (auto split: option.splits dest: single_flight_step)
qed

lemma single_flight_card: "single_flight c \<Longrightarrow> card (inFlight c) \<le> 1"
  by (auto simp: single_flight_def split: option.splits)

text \<open>
  Claim C2, as the code has it. The token fields change only in the indivisible steps of
  the interleaving model, and every client reached from a single-flight client by any
  sequence of them is single-flight: the stored promise is the only provider invocation
  in flight, so there are never two, whatever the provider does. Let \<open>n \<ge> 1\<close> calls of
  \<open>getToken\<close> arrive while the cache holds no usable token and before any invocation
  settles. If a refresh is in flight, or the provider returns a promise when invoked, all
  of them get the promise of one and the same invocation \<open>p\<close>: the one already in flight
  if there is one (then the provider is not invoked again), else a single new one. Each
  caller therefore receives what that invocation settles with, its token or its error.
\<close>

theorem single_flight_getToken:
  assumes inv: "single_flight c"
    and uncached: "cachedToken c = None \<or> cachedToken c = Some []"
    and n: "0 < n"
    and run: "concurrent_getToken n c = (hs, c')"
  shows "((tokenPromise c = None \<longrightarrow> (\<forall>e. tokenProvider c (providerCalls c) \<noteq> Throws e)) \<longrightarrow>
      (\<exists>p. hs = replicate n (Chained p) \<and>
         tokenPromise c' = Some p \<and> inFlight c' = {p} \<and>
         providerCalls c' =
           (if tokenPromise c = None then Suc (providerCalls c) else providerCalls c) \<and>
         map (promise_result c') hs = replicate n (settled_with (tokenProvider c p)))) \<and>
    (\<forall>evs c''. run_events evs c = Some c'' \<longrightarrow> single_flight c'' \<and> card (inFlight c'') \<le> 1)"
proof -
  have always: "\<forall>evs c''. run_events evs c = Some c'' \<longrightarrow> single_flight c'' \<and> card (inFlight c'') \<le> 1"
    using inv by (blast intro: single_flight_run single_flight_card)
  have joined: "\<exists>p. hs = replicate n (Chained p) \<and>
         tokenPromise c' = Some p \<and> inFlight c' = {p} \<and>
         providerCalls c' =
           (if tokenPromise c = None then Suc (providerCalls c) else providerCalls c) \<and>
         map (promise_result c') hs = replicate n (settled_with (tokenProvider c p))"
    if promise: "tokenPromise c = None \<longrightarrow> (\<forall>e. tokenProvider c (providerCalls c) \<noteq> Throws e)"
  proof -
    obtain m where m: "n = Suc m" using n by (cases n) auto
    obtain h c1 where first: "getToken_call c = (h, c1)" by (cases "getToken_call c")
    have "\<exists>p. h = Chained p \<and> tokenPromise c1 = Some p \<and> inFlight c1 = {p} \<and>
        cachedToken c1 = cachedToken c \<and> tokenProvider c1 = tokenProvider c \<and>
        providerCalls c1 =
          (if tokenPromise c = None then Suc (providerCalls c) else providerCalls c)"
      using inv uncached promise first
      by (auto simp: getToken_call_uncached refreshToken_call_def single_flight_def
               split: option.splits provider_outcome.splits)
    then obtain p where h: "h = Chained p" and c1: "tokenPromise c1 = Some p"
      "inFlight c1 = {p}" "cachedToken c1 = cachedToken c" "tokenProvider c1 = tokenProvider c"
      "providerCalls c1 =
        (if tokenPromise c = None then Suc (providerCalls c) else providerCalls c)"
      by blast
    have rest: "concurrent_getToken m c1 = (replicate m (Chained p), c1)"
      using c1 uncached by (intro concurrent_getToken_joined) simp_all
    from run have hs: "hs = replicate n (Chained p)" and c': "c' = c1"
      by (simp_all add: m first h rest)
    have results: "map (promise_result c') hs = replicate n (settled_with (tokenProvider c p))"
      by (simp add: hs c' c1 promise_result_def)
    from hs c' c1 results show ?thesis by blast
  qed
  from joined always show ?thesis by blast
qed

theorem single_flight_getToken_witness:
  "single_flight (example_client (tokens_in_turn [''valid-token''])) \<and>
   cachedToken (example_client (tokens_in_turn [''valid-token''])) = None \<and>
   fst (concurrent_getToken 3 (example_client (tokens_in_turn [''valid-token''])))
     = [Chained 0, Chained 0, Chained 0] \<and>
   providerCalls (snd (concurrent_getToken 3 (example_client (tokens_in_turn [''valid-token''])))) = 1 \<and>
   inFlight (snd (concurrent_getToken 3 (example_client (tokens_in_turn [''valid-token''])))) = {0} \<and>
   map (promise_result (snd (concurrent_getToken 3 (example_client (tokens_in_turn [''valid-token''])))))
     (fst (concurrent_getToken 3 (example_client (tokens_in_turn [''valid-token'']))))
     = [Inr ''valid-token'', Inr ''valid-token'', Inr ''valid-token'']"
proof -
  let ?c = "example_client (tokens_in_turn [''valid-token''])"
  have inv: "single_flight ?c" by (rule example_client_single_flight)
  have none: "cachedToken ?c = None" by (simp add: example_client_def)
  then have uncached: "cachedToken ?c = None \<or> cachedToken ?c = Some []" by simp
  have idle: "tokenPromise ?c = None" and zero: "providerCalls ?c = 0"
    by (simp_all add: example_client_def)
  have n: "(0::nat) < 3" by simp
  have run: "concurrent_getToken 3 ?c = (fst (concurrent_getToken 3 ?c), snd (concurrent_getToken 3 ?c))"
    by simp
  have promise: "tokenPromise ?c = None \<longrightarrow> (\<forall>e. tokenProvider ?c (providerCalls ?c) \<noteq> Throws e)"
    by (simp add: fixture_defs)
  from single_flight_getToken [OF inv uncached n run, THEN conjunct1, THEN mp, OF promise]
  obtain p where
    p: "fst (concurrent_getToken 3 ?c) = replicate 3 (Chained p)"
      "inFlight (snd (concurrent_getToken 3 ?c)) = {p}"
      "providerCalls (snd (concurrent_getToken 3 ?c)) = Suc 0"
      "map (promise_result (snd (concurrent_getToken 3 ?c))) (fst (concurrent_getToken 3 ?c))
         = replicate 3 (settled_with (tokenProvider ?c p))"
    using idle zero by auto
  have hd: "hd (fst (concurrent_getToken 3 ?c)) = Chained 0"
    by (simp add: numeral_3_eq_3 getToken_call_def refreshToken_call_def fixture_defs
          split: prod.splits)
  with p(1) have p0: "p = 0" by (simp add: numeral_3_eq_3)
  have tok: "settled_with (tokenProvider ?c 0) = Inr ''valid-token''"
    by (simp add: fixture_defs settled_with_def)
  from inv none p p0 tok show ?thesis by (simp add: numeral_3_eq_3)
qed

text \<open>
  Claim C2 as stated fails for a provider that throws before it has returned a promise:
  \<open>refreshToken\<close> then never stores a promise, so each of three calls of \<open>getToken\<close>
  made one after the other in the same turn invokes the provider again, and each is
  rejected with what its own invocation threw.
\<close>

theorem single_flight_getToken_counterexample:
  "cachedToken (example_client (throwing_provider ''boom'')) = None \<and>
   tokenPromise (example_client (throwing_provider ''boom'')) = None \<and>
   fst (concurrent_getToken 3 (example_client (throwing_provider ''boom'')))
     = [Rejected (PlainError ''boom''), Rejected (PlainError ''boom''), Rejected (PlainError ''boom'')] \<and>
   providerCalls (snd (concurrent_getToken 3 (example_client (throwing_provider ''boom'')))) = 3 \<and>
   inFlight (snd (concurrent_getToken 3 (example_client (throwing_provider ''boom'')))) = {}"
  by (simp add: numeral_3_eq_3 getToken_call_def refreshToken_call_def example_client_def
        throwing_provider_def)

section \<open>The invariant in every client the operations reach\<close>

lemma new_client_single_flight:
  "new_VenalabsApiClient config = Inr c \<Longrightarrow> single_flight c"
  by (auto simp: new_VenalabsApiClient_def single_flight_def split: if_splits option.splits)

lemma getToken_call_chained:
  "getToken_call c = (Chained p, c1) \<Longrightarrow> tokenPromise c1 = Some p"
  by (auto simp: getToken_call_def refreshToken_call_def
           split: option.splits if_splits provider_outcome.splits)

lemma await_token_single_flight:
  assumes inv: "single_flight c1" and h: "\<forall>p. h = Chained p \<longrightarrow> tokenPromise c1 = Some p"
    and aw: "await_token (h, c1) = (r, c')"
  shows "single_flight c'"
proof (cases h)
  case (Chained p)
  with h have "tokenPromise c1 = Some p" by simp
  with inv have "step (Settle p) c1 = Some (settle p c1)" by (simp add: single_flight_def)
  from single_flight_step [OF inv this] aw Chained show ?thesis
    by (simp add: await_token_def)
qed (use inv aw in \<open>simp_all add: await_token_def\<close>)

lemma getToken_single_flight:
  assumes inv: "single_flight c" and g: "getToken c = (r, c')"
  shows "single_flight c'"
proof -
  obtain h c1 where call: "getToken_call c = (h, c1)" by (cases "getToken_call c")
  then have "step CallGetToken c = Some c1" by simp
  from single_flight_step [OF inv this] have inv1: "single_flight c1" .
  from call have "\<forall>p. h = Chained p \<longrightarrow> tokenPromise c1 = Some p"
    by (auto dest: getToken_call_chained)
  from await_token_single_flight [OF inv1 this] g call show ?thesis
    by (simp add: getToken_def)
qed

lemma refresh_single_flight:
  assumes inv: "single_flight c" and g: "refreshToken (clearToken c) = (r, c')"
  shows "single_flight c'"
proof -
  obtain h c1 where call: "refreshToken_call (clearToken c) = (h, c1)"
    by (cases "refreshToken_call (clearToken c)")
  then have "step Handle401 c = Some c1" by simp
  from single_flight_step [OF inv this] have inv1: "single_flight c1" .
  from call have "\<forall>p. h = Chained p \<longrightarrow> tokenPromise c1 = Some p"
    by (auto simp: refreshToken_call_def split: option.splits provider_outcome.splits)
  from await_token_single_flight [OF inv1 this] g call show ?thesis
    by (simp add: refreshToken_def)
qed

lemma send_single_flight:
  assumes inv: "single_flight c" and s: "send pf req c = (r, c')"
  shows "single_flight c'"
  using inv by (subst send_frame [OF s]) (simp add: single_flight_def)

lemma helper_retry_single_flight:
  assumes inv: "single_flight c" and call: "helper_call pf h True c = (res, c')"
  shows "single_flight c'"
proof -
  obtain t c1 where tok: "getToken c = (t, c1)" by (cases "getToken c")
  note inv1 = getToken_single_flight [OF inv tok]
  show ?thesis
  proof (cases t)
    case (Inl e)
    with tok call have "c' = c1" by (simp add: helper_call_no_token)
    with inv1 show ?thesis by simp
  next
    case (Inr token)
    obtain r c2 where snd: "send pf (helper_request c1 h token) c1 = (r, c2)"
      by (cases "send pf (helper_request c1 h token) c1")
    from call tok Inr snd have "c' = c2"
      by (simp add: helper_call_unfold [of c token c1] split: sum.splits)
    with send_single_flight [OF inv1 snd] show ?thesis by simp
  qed
qed

lemma helper_call_single_flight:
  assumes inv: "single_flight c" and call: "helper_call pf h isRetry c = (res, c')"
  shows "single_flight c'"
proof (cases isRetry)
  case True
  with inv call show ?thesis by (auto intro: helper_retry_single_flight)
next
  case False
  obtain t c1 where tok: "getToken c = (t, c1)" by (cases "getToken c")
  note inv1 = getToken_single_flight [OF inv tok]
  show ?thesis
  proof (cases t)
    case (Inl e)
    with tok call have "c' = c1" by (simp add: helper_call_no_token)
    with inv1 show ?thesis by simp
  next
    case (Inr token)
    obtain r c2 where snd: "send pf (helper_request c1 h token) c1 = (r, c2)"
      by (cases "send pf (helper_request c1 h token) c1")
    note inv2 = send_single_flight [OF inv1 snd]
    obtain t3 c3 where refresh: "refreshToken (clearToken c2) = (t3, c3)"
      by (cases "refreshToken (clearToken c2)")
    note inv3 = refresh_single_flight [OF inv2 refresh]
    from call tok Inr snd refresh False
    have "c' = c2 \<or> c' = c3 \<or> helper_call pf h True c3 = (res, c')"
      by (auto simp: helper_call_unfold [of c token c1] split: sum.splits if_splits)
    with inv2 inv3 show ?thesis by (auto intro: helper_retry_single_flight)
  qed
qed

text \<open>
  The constructor builds a single-flight client and every public method keeps it so: the
  invariant holds in every client a caller can hold between two calls.
\<close>

lemma perform_single_flight:
  assumes inv: "single_flight c" and call: "perform pf op c = (res, c')"
  shows "single_flight c'"
proof (cases "[] \<in> set (required_arguments op)")
  case True
  then have "snd (perform pf op c) = c"
    by (cases op) (auto simp: operation_defs)
  with inv call show ?thesis by simp
next
  case False
  then have "snd (perform pf op c) = snd (helper_call pf (helper_of pf op) False c)"
    by (cases op) (auto simp: operation_defs split: prod.splits sum.splits thrown.splits)
  with call have "helper_call pf (helper_of pf op) False c
      = (fst (helper_call pf (helper_of pf op) False c), c')"
    by (metis prod.collapse snd_conv)
  from helper_call_single_flight [OF inv this] show ?thesis .
qed

end
